theory Spec2Isabelle
  imports Main "HOL-Library.Word" "HOL-Library.AList"
begin

unbundle bit_operations_syntax

section \<open>Values shared by the trusted applications\<close>

type_synonym byte = "8 word"
type_synonym u32 = "32 word"

text \<open>
  The result codes the trusted applications return or receive. In C they are 32-bit
  constants of the TEE headers; only their being distinct matters here.
\<close>

datatype TEE_Result =
    TEE_SUCCESS
  | TEE_ERROR_GENERIC
  | TEE_ERROR_ACCESS_CONFLICT
  | TEE_ERROR_BAD_PARAMETERS
  | TEE_ERROR_BAD_STATE
  | TEE_ERROR_ITEM_NOT_FOUND
  | TEE_ERROR_NOT_SUPPORTED
  | TEE_ERROR_OUT_OF_MEMORY
  | TEE_ERROR_SHORT_BUFFER
  | TEE_ERROR_CORRUPT_OBJECT
  | TEE_ERROR_STORAGE_NO_SPACE

definition CHUNK_SIZE :: nat where
  "CHUNK_SIZE = 16 * 1024"

text \<open>
  \<open>TEE_Param\<close> is a union of a memory reference (buffer, size) and a value pair (a, b).
  Every command compares \<open>param_types\<close> with the expected layout before it touches a
  parameter, so only the view that matches the type is ever read; the union is kept as a
  product of both views. \<open>memref_buffer\<close> is the content of the shared memory the
  reference points to, \<open>memref_size\<close> the size field.
\<close>

record TEE_Param =
  memref_buffer :: "byte list"
  memref_size :: nat
  value_a :: u32
  value_b :: u32

record TEE_Params =
  p0 :: TEE_Param
  p1 :: TEE_Param
  p2 :: TEE_Param
  p3 :: TEE_Param

text \<open>
  The parameter type codes and the macro \<open>TEE_PARAM_TYPES\<close>, with the values of the TEE
  headers (which the repository includes and does not contain).
\<close>

definition TEE_PARAM_TYPE_NONE :: u32 where "TEE_PARAM_TYPE_NONE = 0"
definition TEE_PARAM_TYPE_VALUE_INPUT :: u32 where "TEE_PARAM_TYPE_VALUE_INPUT = 1"
definition TEE_PARAM_TYPE_VALUE_OUTPUT :: u32 where "TEE_PARAM_TYPE_VALUE_OUTPUT = 2"
definition TEE_PARAM_TYPE_MEMREF_INPUT :: u32 where "TEE_PARAM_TYPE_MEMREF_INPUT = 5"
definition TEE_PARAM_TYPE_MEMREF_OUTPUT :: u32 where "TEE_PARAM_TYPE_MEMREF_OUTPUT = 6"

definition TEE_PARAM_TYPES :: "u32 \<Rightarrow> u32 \<Rightarrow> u32 \<Rightarrow> u32 \<Rightarrow> u32" where
  "TEE_PARAM_TYPES t0 t1 t2 t3 = t0 OR push_bit 4 t1 OR push_bit 8 t2 OR push_bit 12 t3"

text \<open>
  The constant \<open>exp_param_types\<close> of \<open>write_raw_chunk\<close>, of \<open>read_raw_object\<close>, and
  of \<open>encrypt_chunk\<close> and \<open>decrypt_chunk\<close> (the same in both).
\<close>

definition write_raw_chunk_param_types :: u32 where
  "write_raw_chunk_param_types =
     TEE_PARAM_TYPES TEE_PARAM_TYPE_MEMREF_INPUT TEE_PARAM_TYPE_MEMREF_INPUT
       TEE_PARAM_TYPE_VALUE_INPUT TEE_PARAM_TYPE_NONE"

definition read_raw_object_param_types :: u32 where
  "read_raw_object_param_types =
     TEE_PARAM_TYPES TEE_PARAM_TYPE_MEMREF_INPUT TEE_PARAM_TYPE_MEMREF_OUTPUT
       TEE_PARAM_TYPE_NONE TEE_PARAM_TYPE_NONE"

definition crypt_chunk_param_types :: u32 where
  "crypt_chunk_param_types =
     TEE_PARAM_TYPES TEE_PARAM_TYPE_MEMREF_INPUT TEE_PARAM_TYPE_MEMREF_OUTPUT
       TEE_PARAM_TYPE_VALUE_INPUT TEE_PARAM_TYPE_VALUE_OUTPUT"

text \<open>
  Handles are opaque pointers in C; here they are numbers, \<open>0\<close> being
  \<open>TEE_HANDLE_NULL\<close>. A table of live handles is an association list, and a newly
  allocated handle is one above every handle in the table.
\<close>

type_synonym handle = nat

definition TEE_HANDLE_NULL :: handle where
  "TEE_HANDLE_NULL = 0"

definition fresh_handle :: "(handle \<times> 'a) list \<Rightarrow> handle" where
  "fresh_handle tab = Suc (foldr max (map fst tab) 0)"

text \<open>\<open>TEE_MemMove (dst + off, src, length src)\<close> on a buffer held as a list.\<close>

definition TEE_MemMove :: "byte list \<Rightarrow> nat \<Rightarrow> byte list \<Rightarrow> byte list" where
  "TEE_MemMove dst off src = take off dst @ src @ drop (off + length src) dst"

section \<open>The persistent object store\<close>

text \<open>
  Modelled from the spec: the persistent-object primitives of the secure environment
  (section 4.1: open, create, sequential read, append, close, delete), which the
  repository calls and does not implement. The store maps an object identifier to the
  object's bytes; an open handle records the identifier, the access flags it was opened
  with and the data position. A call with a handle that is not open ends the trusted
  application (a panic): the result \<open>None\<close>.

  Each primitive that can fail takes the environment's verdict for this call:
  \<open>TEE_SUCCESS\<close> lets the call go through, any other code is returned as the failure
  (store full, out of memory, access conflict and so on), leaving the store as it was.
\<close>

type_synonym obj_id = "byte list"

record open_object =
  oo_id :: obj_id
  oo_flags :: u32
  oo_pos :: nat

record tee_storage =
  objects :: "obj_id \<rightharpoonup> byte list"
  handles :: "(handle \<times> open_object) list"

text \<open>The access flags the code combines, with the values of the TEE headers.\<close>

definition TEE_DATA_FLAG_ACCESS_READ :: u32 where "TEE_DATA_FLAG_ACCESS_READ = 0x1"
definition TEE_DATA_FLAG_ACCESS_WRITE :: u32 where "TEE_DATA_FLAG_ACCESS_WRITE = 0x2"
definition TEE_DATA_FLAG_ACCESS_WRITE_META :: u32 where "TEE_DATA_FLAG_ACCESS_WRITE_META = 0x4"
definition TEE_DATA_FLAG_SHARE_READ :: u32 where "TEE_DATA_FLAG_SHARE_READ = 0x10"
definition TEE_DATA_FLAG_OVERWRITE :: u32 where "TEE_DATA_FLAG_OVERWRITE = 0x400"

text \<open>
  Create with no initial data. With the overwrite flag an existing object is replaced
  by an empty one; without it an existing object is an access conflict. On failure the
  handle written back is \<open>TEE_HANDLE_NULL\<close>.
\<close>

definition TEE_CreatePersistentObject ::
  "TEE_Result \<Rightarrow> obj_id \<Rightarrow> u32 \<Rightarrow> tee_storage \<Rightarrow> TEE_Result \<times> handle \<times> tee_storage" where
  "TEE_CreatePersistentObject verdict ident flags w =
     (if verdict \<noteq> TEE_SUCCESS then (verdict, TEE_HANDLE_NULL, w)
      else if objects w ident \<noteq> None \<and> flags AND TEE_DATA_FLAG_OVERWRITE = 0
        then (TEE_ERROR_ACCESS_CONFLICT, TEE_HANDLE_NULL, w)
      else
        (let h = fresh_handle (handles w) in
         (TEE_SUCCESS, h,
          w\<lparr>objects := (objects w)(ident \<mapsto> []),
            handles := (h, \<lparr>oo_id = ident, oo_flags = flags, oo_pos = 0\<rparr>) # handles w\<rparr>)))"

definition TEE_OpenPersistentObject ::
  "TEE_Result \<Rightarrow> obj_id \<Rightarrow> u32 \<Rightarrow> tee_storage \<Rightarrow> TEE_Result \<times> handle \<times> tee_storage" where
  "TEE_OpenPersistentObject verdict ident flags w =
     (if verdict \<noteq> TEE_SUCCESS then (verdict, TEE_HANDLE_NULL, w)
      else if objects w ident = None then (TEE_ERROR_ITEM_NOT_FOUND, TEE_HANDLE_NULL, w)
      else
        (let h = fresh_handle (handles w) in
         (TEE_SUCCESS, h,
          w\<lparr>handles := (h, \<lparr>oo_id = ident, oo_flags = flags, oo_pos = 0\<rparr>) # handles w\<rparr>)))"

text \<open>The only field of \<open>TEE_ObjectInfo\<close> the code reads is \<open>dataSize\<close>.\<close>

definition TEE_GetObjectInfo1 ::
  "TEE_Result \<Rightarrow> handle \<Rightarrow> tee_storage \<Rightarrow> (TEE_Result \<times> nat) option" where
  "TEE_GetObjectInfo1 verdict h w =
     (case map_of (handles w) h of
        None \<Rightarrow> None
      | Some oo \<Rightarrow>
          if verdict \<noteq> TEE_SUCCESS then Some (verdict, 0)
          else (case objects w (oo_id oo) of
                  None \<Rightarrow> Some (TEE_ERROR_CORRUPT_OBJECT, 0)
                | Some content \<Rightarrow> Some (TEE_SUCCESS, length content)))"

text \<open>
  A read delivers bytes from the data position on and advances it. The environment's
  verdict for a read, asked for the data position and the number of bytes requested,
  is one of: deliver what was asked (as far as the object reaches), deliver at most
  \<open>k\<close> bytes, or fail with a code.
\<close>

datatype read_verdict = ReadAll | ReadShort nat | ReadFail TEE_Result

definition TEE_ReadObjectData ::
  "(nat \<Rightarrow> nat \<Rightarrow> read_verdict) \<Rightarrow> handle \<Rightarrow> nat \<Rightarrow> tee_storage
     \<Rightarrow> (TEE_Result \<times> byte list \<times> tee_storage) option" where
  "TEE_ReadObjectData verdict h n w =
     (case map_of (handles w) h of
        None \<Rightarrow> None
      | Some oo \<Rightarrow>
          (case verdict (oo_pos oo) n of
             ReadFail e \<Rightarrow> Some (e, [], w)
           | v \<Rightarrow>
              (case objects w (oo_id oo) of
                 None \<Rightarrow> Some (TEE_ERROR_CORRUPT_OBJECT, [], w)
               | Some content \<Rightarrow>
                   (let m = (case v of ReadShort k \<Rightarrow> min n k | _ \<Rightarrow> n);
                        got = take m (drop (oo_pos oo) content)
                    in Some (TEE_SUCCESS, got,
                         w\<lparr>handles :=
                             AList.update h (oo\<lparr>oo_pos := oo_pos oo + length got\<rparr>) (handles w)\<rparr>)))))"

text \<open>
  A write puts the bytes at the data position (a gap is filled with zeros) and advances
  it; a failed write changes nothing.
\<close>

definition TEE_WriteObjectData ::
  "TEE_Result \<Rightarrow> handle \<Rightarrow> byte list \<Rightarrow> tee_storage \<Rightarrow> (TEE_Result \<times> tee_storage) option" where
  "TEE_WriteObjectData verdict h bs w =
     (case map_of (handles w) h of
        None \<Rightarrow> None
      | Some oo \<Rightarrow>
          if verdict \<noteq> TEE_SUCCESS then Some (verdict, w)
          else (case objects w (oo_id oo) of
                  None \<Rightarrow> Some (TEE_ERROR_CORRUPT_OBJECT, w)
                | Some content \<Rightarrow>
                    Some (TEE_SUCCESS,
                      w\<lparr>objects := (objects w)(oo_id oo \<mapsto>
                           take (oo_pos oo) content @ replicate (oo_pos oo - length content) 0
                             @ bs @ drop (oo_pos oo + length bs) content),
                        handles :=
                          AList.update h (oo\<lparr>oo_pos := oo_pos oo + length bs\<rparr>) (handles w)\<rparr>)))"

text \<open>Closing \<open>TEE_HANDLE_NULL\<close> does nothing.\<close>

definition TEE_CloseObject :: "handle \<Rightarrow> tee_storage \<Rightarrow> tee_storage option" where
  "TEE_CloseObject h w =
     (if h = TEE_HANDLE_NULL then Some w
      else (case map_of (handles w) h of
              None \<Rightarrow> None
            | Some oo \<Rightarrow> Some (w\<lparr>handles := AList.delete h (handles w)\<rparr>)))"

definition TEE_CloseAndDeletePersistentObject1 :: "handle \<Rightarrow> tee_storage \<Rightarrow> tee_storage option" where
  "TEE_CloseAndDeletePersistentObject1 h w =
     (if h = TEE_HANDLE_NULL then Some w
      else (case map_of (handles w) h of
              None \<Rightarrow> None
            | Some oo \<Rightarrow>
                Some (w\<lparr>objects := (objects w)(oo_id oo := None),
                        handles := AList.delete h (handles w)\<rparr>)))"

section \<open>The storage trusted application\<close>

text \<open>
  What the environment decides during one command of the storage application: whether
  each \<open>TEE_Malloc\<close> succeeds (0 is the identifier copy, 1 the data or chunk buffer) and
  the verdict of each store primitive the command calls.
\<close>

record storage_env =
  malloc_ok :: "nat \<Rightarrow> bool"
  create_res :: TEE_Result
  write_res :: TEE_Result
  open_res :: TEE_Result
  info_res :: TEE_Result
  read_res :: "nat \<Rightarrow> nat \<Rightarrow> read_verdict"

definition reliable :: storage_env where
  "reliable = \<lparr>malloc_ok = (\<lambda>_. True), create_res = TEE_SUCCESS, write_res = TEE_SUCCESS,
     open_res = TEE_SUCCESS, info_res = TEE_SUCCESS, read_res = (\<lambda>_ _. ReadAll)\<rparr>"

record write_session =
  object :: handle
  in_progress :: bool

text \<open>
  \<open>write_raw_chunk\<close> of \<open>cpu and time cal/secure_storage/ta/secure_storage_ta.c\<close>.
  The result is the returned code with the session and the store as the call leaves
  them; \<open>None\<close> is a panic inside a store primitive.
\<close>

definition write_raw_chunk ::
  "storage_env \<Rightarrow> u32 \<Rightarrow> TEE_Params \<Rightarrow> write_session \<Rightarrow> tee_storage
     \<Rightarrow> (TEE_Result \<times> write_session \<times> tee_storage) option" where
  "write_raw_chunk env param_types params sess w =
     (let exp_param_types = write_raw_chunk_param_types;
          obj_id_sz = memref_size (p0 params);
          data_sz = memref_size (p1 params);
          is_first = value_a (p2 params);
          obj_id = take obj_id_sz (memref_buffer (p0 params));
          data = take data_sz (memref_buffer (p1 params))
      in
      if param_types \<noteq> exp_param_types then Some (TEE_ERROR_BAD_PARAMETERS, sess, w)
      else if data_sz > CHUNK_SIZE then Some (TEE_ERROR_BAD_PARAMETERS, sess, w)
      else if \<not> malloc_ok env 0 then Some (TEE_ERROR_OUT_OF_MEMORY, sess, w)
      else if \<not> malloc_ok env 1 then Some (TEE_ERROR_OUT_OF_MEMORY, sess, w)
      else
       (case
          (if is_first \<noteq> 0 then
             (let obj_data_flag = TEE_DATA_FLAG_ACCESS_WRITE OR TEE_DATA_FLAG_ACCESS_WRITE_META
                    OR TEE_DATA_FLAG_OVERWRITE
              in case TEE_CreatePersistentObject (create_res env) obj_id obj_data_flag w of
                   (res, h, w1) \<Rightarrow>
                     if res \<noteq> TEE_SUCCESS then Inl (res, sess\<lparr>object := h\<rparr>, w1)
                     else Inr (sess\<lparr>object := h, in_progress := True\<rparr>, w1))
           else if \<not> in_progress sess then Inl (TEE_ERROR_BAD_STATE, sess, w)
           else Inr (sess, w))
        of
          Inl early \<Rightarrow> Some early
        | Inr (sess1, w1) \<Rightarrow>
            (case TEE_WriteObjectData (write_res env) (object sess1) data w1 of
               None \<Rightarrow> None
             | Some (res, w2) \<Rightarrow>
                 if res \<noteq> TEE_SUCCESS then
                   (case TEE_CloseAndDeletePersistentObject1 (object sess1) w2 of
                      None \<Rightarrow> None
                    | Some w3 \<Rightarrow> Some (res, sess1\<lparr>in_progress := False\<rparr>, w3))
                 else Some (res, sess1, w2))))"

definition write_raw_final ::
  "write_session \<Rightarrow> tee_storage \<Rightarrow> (TEE_Result \<times> write_session \<times> tee_storage) option" where
  "write_raw_final sess w =
     (if \<not> in_progress sess then Some (TEE_ERROR_BAD_STATE, sess, w)
      else (case TEE_CloseObject (object sess) w of
              None \<Rightarrow> None
            | Some w1 \<Rightarrow> Some (TEE_SUCCESS, sess\<lparr>in_progress := False\<rparr>, w1)))"

text \<open>
  The loop of \<open>read_raw_object\<close>: while \<open>total_read < dataSize\<close>, ask the store for the
  next sub-chunk, stop on a failed or short read, otherwise copy the sub-chunk into the
  output buffer at offset \<open>total_read\<close>. The result is the code, the output buffer and
  \<open>total_read\<close> when the loop is left. A sub-chunk is never empty, so the loop ends.
\<close>

definition next_chunk_size :: "nat \<Rightarrow> nat \<Rightarrow> nat" where
  "next_chunk_size dataSize total_read =
     (if dataSize - total_read > CHUNK_SIZE then CHUNK_SIZE else dataSize - total_read)"

function read_loop ::
  "storage_env \<Rightarrow> handle \<Rightarrow> nat \<Rightarrow> byte list \<Rightarrow> nat \<Rightarrow> tee_storage
     \<Rightarrow> (TEE_Result \<times> byte list \<times> nat \<times> tee_storage) option" where
  "read_loop env obj dataSize buf total_read w =
     (if total_read < dataSize then
        (case TEE_ReadObjectData (read_res env) obj (next_chunk_size dataSize total_read) w of
           None \<Rightarrow> None
         | Some (res, chunk_buffer, w1) \<Rightarrow>
             if res \<noteq> TEE_SUCCESS then Some (res, buf, total_read, w1)
             else if length chunk_buffer \<noteq> next_chunk_size dataSize total_read
               then Some (TEE_ERROR_GENERIC, buf, total_read, w1)
             else read_loop env obj dataSize (TEE_MemMove buf total_read chunk_buffer)
                    (total_read + length chunk_buffer) w1)
      else Some (TEE_SUCCESS, buf, total_read, w))"
  by pat_completeness auto
termination
  by (relation "measure (\<lambda>(env, obj, dataSize, buf, total_read, w). dataSize - total_read)")
     (auto simp: next_chunk_size_def CHUNK_SIZE_def split: if_splits)

declare read_loop.simps [simp del]

text \<open>
  \<open>read_raw_object\<close>, the same text in \<open>cpu and time cal/.../secure_storage_ta.c\<close> and
  in \<open>1MB/ta.c\<close>. The result carries the parameters as the client sees them afterwards:
  the output buffer and its size field. The label \<open>exit\<close> closes the object on every
  path past the open. The time measurement only feeds a log line and is left out.
\<close>

definition read_exit ::
  "TEE_Result \<Rightarrow> TEE_Params \<Rightarrow> handle \<Rightarrow> tee_storage \<Rightarrow> (TEE_Result \<times> TEE_Params \<times> tee_storage) option" where
  "read_exit res params obj w =
     (case TEE_CloseObject obj w of None \<Rightarrow> None | Some w' \<Rightarrow> Some (res, params, w'))"

definition read_raw_object ::
  "storage_env \<Rightarrow> u32 \<Rightarrow> TEE_Params \<Rightarrow> tee_storage \<Rightarrow> (TEE_Result \<times> TEE_Params \<times> tee_storage) option" where
  "read_raw_object env param_types params w =
     (let exp_param_types = read_raw_object_param_types;
          obj_id_sz = memref_size (p0 params);
          obj_id = take obj_id_sz (memref_buffer (p0 params));
          data_sz = memref_size (p1 params)
      in
      if param_types \<noteq> exp_param_types then Some (TEE_ERROR_BAD_PARAMETERS, params, w)
      else if \<not> malloc_ok env 0 then Some (TEE_ERROR_OUT_OF_MEMORY, params, w)
      else if \<not> malloc_ok env 1 then Some (TEE_ERROR_OUT_OF_MEMORY, params, w)
      else
       (case TEE_OpenPersistentObject (open_res env) obj_id
               (TEE_DATA_FLAG_ACCESS_READ OR TEE_DATA_FLAG_SHARE_READ) w of
          (res, obj, w1) \<Rightarrow>
            if res \<noteq> TEE_SUCCESS then Some (res, params, w1)
            else
             (case TEE_GetObjectInfo1 (info_res env) obj w1 of
                None \<Rightarrow> None
              | Some (res, dataSize) \<Rightarrow>
                  if res \<noteq> TEE_SUCCESS then read_exit res params obj w1
                  else if dataSize > data_sz then
                    read_exit TEE_ERROR_SHORT_BUFFER
                      (params\<lparr>p1 := (p1 params)\<lparr>memref_size := dataSize\<rparr>\<rparr>) obj w1
                  else
                   (case read_loop env obj dataSize (memref_buffer (p1 params)) 0 w1 of
                      None \<Rightarrow> None
                    | Some (res, buf, total_read, w2) \<Rightarrow>
                        if res \<noteq> TEE_SUCCESS then
                          read_exit res (params\<lparr>p1 := (p1 params)\<lparr>memref_buffer := buf\<rparr>\<rparr>) obj w2
                        else
                          read_exit res
                            (params\<lparr>p1 := (p1 params)\<lparr>memref_buffer := buf,
                               memref_size := total_read\<rparr>\<rparr>) obj w2))))"

text \<open>
  Session open and close of the storage application. \<open>TEE_Malloc\<close> with hint 0 returns
  zeroed memory, so the new session's handle is \<open>TEE_HANDLE_NULL\<close>.
\<close>

definition TA_OpenSessionEntryPoint_storage :: "bool \<Rightarrow> TEE_Result \<times> write_session option" where
  "TA_OpenSessionEntryPoint_storage alloc_ok =
     (if \<not> alloc_ok then (TEE_ERROR_OUT_OF_MEMORY, None)
      else (TEE_SUCCESS, Some \<lparr>object = TEE_HANDLE_NULL, in_progress = False\<rparr>))"

definition TA_CloseSessionEntryPoint_storage ::
  "write_session option \<Rightarrow> tee_storage \<Rightarrow> tee_storage option" where
  "TA_CloseSessionEntryPoint_storage session w =
     (case session of
        None \<Rightarrow> Some w
      | Some sess \<Rightarrow> if in_progress sess then TEE_CloseObject (object sess) w else Some w)"

text \<open>
  What holds of a session and the store between commands: while a write is in progress
  the session's handle is \<open>TEE_HANDLE_NULL\<close> (after a first chunk whose create failed)
  or an open handle.
\<close>

definition handle_usable :: "write_session \<Rightarrow> tee_storage \<Rightarrow> bool" where
  "handle_usable sess w =
     (if in_progress sess
      then object sess = TEE_HANDLE_NULL \<or> map_of (handles w) (object sess) \<noteq> None
      else True)"

text \<open>
  The client side of the size negotiation: the same READ command issued \<open>n\<close> times in
  a row, each on the store the previous one left; the codes and size fields reported,
  in order, and the store after the last one. A panic ends the sequence.
\<close>

fun read_repeatedly ::
  "nat \<Rightarrow> storage_env \<Rightarrow> u32 \<Rightarrow> TEE_Params \<Rightarrow> tee_storage
     \<Rightarrow> (TEE_Result \<times> nat) list \<times> tee_storage" where
  "read_repeatedly 0 env param_types params w = ([], w)"
| "read_repeatedly (Suc n) env param_types params w =
     (case read_raw_object env param_types params w of
        None \<Rightarrow> ([], w)
      | Some (res, params', w') \<Rightarrow>
          (case read_repeatedly n env param_types params w' of
             (reports, w'') \<Rightarrow> ((res, memref_size (p1 params')) # reports, w'')))"

section \<open>Keys and cipher operations\<close>

text \<open>
  Modelled from the spec: the cipher and key primitives of the secure environment
  (section 1: allocate and initialise a symmetric cipher operation), which the repository
  calls and does not implement. A transient object is a key container, empty until it is
  populated; a cipher operation records its mode, the key copied into it, the IV it was
  started with and the input fed to it since. The cipher itself is a parameter: a
  function of mode, key, IV, earlier input and new input. The random generator hands out
  the values of a source one after the other; \<open>rng\<close> counts the draws. A call with a
  handle that is not live, with an empty key container where a key is needed, or on an
  operation that was not keyed and started, is a panic: \<open>None\<close>. A failed allocation
  leaves the caller's handle variable as it was.
\<close>

datatype cipher_mode = TEE_MODE_ENCRYPT | TEE_MODE_DECRYPT

record cipher_op =
  op_mode :: cipher_mode
  op_key :: "byte list option"
  op_iv :: "byte list option"
  op_fed :: "byte list"

record tee_crypto =
  transient :: "(handle \<times> byte list option) list"
  operations :: "(handle \<times> cipher_op) list"
  rng :: nat

record TEE_Time =
  seconds :: u32
  millis :: u32

text \<open>
  What the environment decides during one command of the crypto application: the random
  source, the cipher, the verdict of each primitive the command calls, and the two
  readings of the system time around the cipher call.
\<close>

record crypto_env =
  random_source :: "nat \<Rightarrow> nat \<Rightarrow> byte list"
  cipher :: "cipher_mode \<Rightarrow> byte list \<Rightarrow> byte list \<Rightarrow> byte list \<Rightarrow> byte list \<Rightarrow> byte list"
  alloc_object_res :: TEE_Result
  populate_res :: TEE_Result
  alloc_op_res :: TEE_Result
  set_key_res :: TEE_Result
  update_res :: TEE_Result
  start_time :: TEE_Time
  end_time :: TEE_Time

definition TEE_GenerateRandom ::
  "(nat \<Rightarrow> nat \<Rightarrow> byte list) \<Rightarrow> nat \<Rightarrow> tee_crypto \<Rightarrow> byte list \<times> tee_crypto" where
  "TEE_GenerateRandom src n w = (src (rng w) n, w\<lparr>rng := Suc (rng w)\<rparr>)"

definition TEE_AllocateTransientObject ::
  "TEE_Result \<Rightarrow> tee_crypto \<Rightarrow> TEE_Result \<times> handle \<times> tee_crypto" where
  "TEE_AllocateTransientObject verdict w =
     (if verdict \<noteq> TEE_SUCCESS then (verdict, TEE_HANDLE_NULL, w)
      else (let h = fresh_handle (transient w)
            in (TEE_SUCCESS, h, w\<lparr>transient := (h, None) # transient w\<rparr>)))"

definition TEE_PopulateTransientObject ::
  "TEE_Result \<Rightarrow> handle \<Rightarrow> byte list \<Rightarrow> tee_crypto \<Rightarrow> (TEE_Result \<times> tee_crypto) option" where
  "TEE_PopulateTransientObject verdict h secret w =
     (case map_of (transient w) h of
        None \<Rightarrow> None
      | Some (Some _) \<Rightarrow> None
      | Some None \<Rightarrow>
          if verdict \<noteq> TEE_SUCCESS then Some (verdict, w)
          else Some (TEE_SUCCESS, w\<lparr>transient := AList.update h (Some secret) (transient w)\<rparr>))"

definition TEE_FreeTransientObject :: "handle \<Rightarrow> tee_crypto \<Rightarrow> tee_crypto option" where
  "TEE_FreeTransientObject h w =
     (if h = TEE_HANDLE_NULL then Some w
      else (case map_of (transient w) h of
              None \<Rightarrow> None
            | Some _ \<Rightarrow> Some (w\<lparr>transient := AList.delete h (transient w)\<rparr>)))"

definition TEE_AllocateOperation ::
  "TEE_Result \<Rightarrow> cipher_mode \<Rightarrow> tee_crypto \<Rightarrow> TEE_Result \<times> handle \<times> tee_crypto" where
  "TEE_AllocateOperation verdict mode w =
     (if verdict \<noteq> TEE_SUCCESS then (verdict, TEE_HANDLE_NULL, w)
      else (let h = fresh_handle (operations w)
            in (TEE_SUCCESS, h,
                w\<lparr>operations :=
                    (h, \<lparr>op_mode = mode, op_key = None, op_iv = None, op_fed = []\<rparr>) # operations w\<rparr>)))"

definition TEE_SetOperationKey ::
  "TEE_Result \<Rightarrow> handle \<Rightarrow> handle \<Rightarrow> tee_crypto \<Rightarrow> (TEE_Result \<times> tee_crypto) option" where
  "TEE_SetOperationKey verdict operation key w =
     (case map_of (operations w) operation of
        None \<Rightarrow> None
      | Some opn \<Rightarrow>
          if key = TEE_HANDLE_NULL then
            Some (TEE_SUCCESS,
              w\<lparr>operations := AList.update operation (opn\<lparr>op_key := None\<rparr>) (operations w)\<rparr>)
          else
            (case map_of (transient w) key of
               None \<Rightarrow> None
             | Some None \<Rightarrow> None
             | Some (Some secret) \<Rightarrow>
                 if verdict \<noteq> TEE_SUCCESS then Some (verdict, w)
                 else Some (TEE_SUCCESS,
                   w\<lparr>operations :=
                       AList.update operation (opn\<lparr>op_key := Some secret\<rparr>) (operations w)\<rparr>)))"

definition TEE_FreeOperation :: "handle \<Rightarrow> tee_crypto \<Rightarrow> tee_crypto option" where
  "TEE_FreeOperation operation w =
     (if operation = TEE_HANDLE_NULL then Some w
      else (case map_of (operations w) operation of
              None \<Rightarrow> None
            | Some _ \<Rightarrow> Some (w\<lparr>operations := AList.delete operation (operations w)\<rparr>)))"

definition TEE_CipherInit :: "handle \<Rightarrow> byte list \<Rightarrow> tee_crypto \<Rightarrow> tee_crypto option" where
  "TEE_CipherInit operation IV w =
     (case map_of (operations w) operation of
        None \<Rightarrow> None
      | Some opn \<Rightarrow>
          (case op_key opn of
             None \<Rightarrow> None
           | Some _ \<Rightarrow>
               Some (w\<lparr>operations :=
                   AList.update operation (opn\<lparr>op_iv := Some IV, op_fed := []\<rparr>) (operations w)\<rparr>)))"

text \<open>
  \<open>destLen\<close> is the room in the destination; output that does not fit is a short
  buffer. A failed update leaves the operation as it was.
\<close>

definition TEE_CipherUpdate ::
  "(cipher_mode \<Rightarrow> byte list \<Rightarrow> byte list \<Rightarrow> byte list \<Rightarrow> byte list \<Rightarrow> byte list)
     \<Rightarrow> TEE_Result \<Rightarrow> handle \<Rightarrow> byte list \<Rightarrow> nat \<Rightarrow> tee_crypto
     \<Rightarrow> (TEE_Result \<times> byte list \<times> tee_crypto) option" where
  "TEE_CipherUpdate ciph verdict operation src destLen w =
     (case map_of (operations w) operation of
        None \<Rightarrow> None
      | Some opn \<Rightarrow>
          (case (op_key opn, op_iv opn) of
             (Some secret, Some IV) \<Rightarrow>
               if verdict \<noteq> TEE_SUCCESS then Some (verdict, [], w)
               else
                 (let out = ciph (op_mode opn) secret IV (op_fed opn) src in
                  if length out > destLen then Some (TEE_ERROR_SHORT_BUFFER, [], w)
                  else Some (TEE_SUCCESS, out,
                    w\<lparr>operations :=
                        AList.update operation (opn\<lparr>op_fed := op_fed opn @ src\<rparr>) (operations w)\<rparr>))
           | _ \<Rightarrow> None))"

section \<open>The crypto trusted application\<close>

definition AES_KEY_SIZE :: nat where "AES_KEY_SIZE = 32"
definition AES_IV_SIZE :: nat where "AES_IV_SIZE = 16"

record crypto_session =
  enc_op :: handle
  dec_op :: handle
  key_handle :: handle
  iv :: "byte list"
  initialized :: bool
  total_enc_time_us :: u32
  total_dec_time_us :: u32
  total_bytes :: nat

text \<open>
  The functions of \<open>enc-1mb/secure_storage/ta/secure_storage_ta.c\<close>. Each returns the
  code with the session and the environment state as the call leaves them. \<open>total_bytes\<close>
  is a \<open>size_t\<close>; the only use of it is its low 32 bits, so it is kept unbounded.
\<close>

definition init_crypto_key ::
  "crypto_env \<Rightarrow> crypto_session \<Rightarrow> tee_crypto \<Rightarrow> (TEE_Result \<times> crypto_session \<times> tee_crypto) option" where
  "init_crypto_key env sess w =
     (case TEE_GenerateRandom (random_source env) AES_KEY_SIZE w of
        (key_data, w1) \<Rightarrow>
          (case TEE_AllocateTransientObject (alloc_object_res env) w1 of
             (res, h, w2) \<Rightarrow>
               if res \<noteq> TEE_SUCCESS then Some (res, sess, w2)
               else
                 (let sess1 = sess\<lparr>key_handle := h\<rparr> in
                  case TEE_PopulateTransientObject (populate_res env) (key_handle sess1) key_data w2 of
                    None \<Rightarrow> None
                  | Some (res, w3) \<Rightarrow>
                      if res \<noteq> TEE_SUCCESS then
                        (case TEE_FreeTransientObject (key_handle sess1) w3 of
                           None \<Rightarrow> None
                         | Some w4 \<Rightarrow> Some (res, sess1, w4))
                      else
                        (case TEE_GenerateRandom (random_source env) AES_IV_SIZE w3 of
                           (iv_data, w4) \<Rightarrow> Some (TEE_SUCCESS, sess1\<lparr>iv := iv_data\<rparr>, w4)))))"

definition init_encryption ::
  "crypto_env \<Rightarrow> crypto_session \<Rightarrow> tee_crypto \<Rightarrow> (TEE_Result \<times> crypto_session \<times> tee_crypto) option" where
  "init_encryption env sess w =
     (case TEE_AllocateOperation (alloc_op_res env) TEE_MODE_ENCRYPT w of
        (res, h, w1) \<Rightarrow>
          if res \<noteq> TEE_SUCCESS then Some (res, sess, w1)
          else
            (let sess1 = sess\<lparr>enc_op := h\<rparr> in
             case TEE_SetOperationKey (set_key_res env) (enc_op sess1) (key_handle sess1) w1 of
               None \<Rightarrow> None
             | Some (res, w2) \<Rightarrow>
                 if res \<noteq> TEE_SUCCESS then
                   (case TEE_FreeOperation (enc_op sess1) w2 of
                      None \<Rightarrow> None
                    | Some w3 \<Rightarrow> Some (res, sess1, w3))
                 else
                   (case TEE_CipherInit (enc_op sess1) (take AES_IV_SIZE (iv sess1)) w2 of
                      None \<Rightarrow> None
                    | Some w3 \<Rightarrow> Some (TEE_SUCCESS, sess1, w3))))"

definition init_decryption ::
  "crypto_env \<Rightarrow> crypto_session \<Rightarrow> tee_crypto \<Rightarrow> (TEE_Result \<times> crypto_session \<times> tee_crypto) option" where
  "init_decryption env sess w =
     (case TEE_AllocateOperation (alloc_op_res env) TEE_MODE_DECRYPT w of
        (res, h, w1) \<Rightarrow>
          if res \<noteq> TEE_SUCCESS then Some (res, sess, w1)
          else
            (let sess1 = sess\<lparr>dec_op := h\<rparr> in
             case TEE_SetOperationKey (set_key_res env) (dec_op sess1) (key_handle sess1) w1 of
               None \<Rightarrow> None
             | Some (res, w2) \<Rightarrow>
                 if res \<noteq> TEE_SUCCESS then
                   (case TEE_FreeOperation (dec_op sess1) w2 of
                      None \<Rightarrow> None
                    | Some w3 \<Rightarrow> Some (res, sess1, w3))
                 else
                   (case TEE_CipherInit (dec_op sess1) (take AES_IV_SIZE (iv sess1)) w2 of
                      None \<Rightarrow> None
                    | Some w3 \<Rightarrow> Some (TEE_SUCCESS, sess1, w3))))"

text \<open>The elapsed time both chunk commands compute, in 32-bit arithmetic.\<close>

definition elapsed_us :: "TEE_Time \<Rightarrow> TEE_Time \<Rightarrow> u32" where
  "elapsed_us start_t end_t =
     (seconds end_t - seconds start_t) * 1000000 + (millis end_t - millis start_t) * 1000"

text \<open>
  The block \<open>if (is_first) { ... }\<close> of \<open>encrypt_chunk\<close>; \<open>TEE_SUCCESS\<close> means the
  command goes on past the block, any other code is what the command returns.
\<close>

definition encrypt_chunk_first ::
  "crypto_env \<Rightarrow> crypto_session \<Rightarrow> tee_crypto \<Rightarrow> (TEE_Result \<times> crypto_session \<times> tee_crypto) option" where
  "encrypt_chunk_first env sess w =
     (case (if \<not> initialized sess then
              (case init_crypto_key env sess w of
                 None \<Rightarrow> None
               | Some (res, s, w1) \<Rightarrow>
                   if res \<noteq> TEE_SUCCESS then Some (res, s, w1)
                   else Some (TEE_SUCCESS, s\<lparr>initialized := True\<rparr>, w1))
            else Some (TEE_SUCCESS, sess, w)) of
        None \<Rightarrow> None
      | Some (res, s1, w1) \<Rightarrow>
          if res \<noteq> TEE_SUCCESS then Some (res, s1, w1)
          else
            (case init_encryption env s1 w1 of
               None \<Rightarrow> None
             | Some (res, s2, w2) \<Rightarrow>
                 if res \<noteq> TEE_SUCCESS then Some (res, s2, w2)
                 else Some (TEE_SUCCESS, s2\<lparr>total_enc_time_us := 0, total_bytes := 0\<rparr>, w2)))"

definition encrypt_chunk ::
  "crypto_env \<Rightarrow> u32 \<Rightarrow> TEE_Params \<Rightarrow> crypto_session \<Rightarrow> tee_crypto
     \<Rightarrow> (TEE_Result \<times> TEE_Params \<times> crypto_session \<times> tee_crypto) option" where
  "encrypt_chunk env param_types params sess w =
     (let exp_param_types = crypt_chunk_param_types;
          data_sz = memref_size (p0 params);
          plaintext = take data_sz (memref_buffer (p0 params));
          is_first = value_a (p2 params)
      in
      if param_types \<noteq> exp_param_types then Some (TEE_ERROR_BAD_PARAMETERS, params, sess, w)
      else if data_sz > CHUNK_SIZE then Some (TEE_ERROR_BAD_PARAMETERS, params, sess, w)
      else
       (case (if is_first \<noteq> 0 then encrypt_chunk_first env sess w
              else Some (TEE_SUCCESS, sess, w)) of
          None \<Rightarrow> None
        | Some (res, s1, w1) \<Rightarrow>
            if res \<noteq> TEE_SUCCESS then Some (res, params, s1, w1)
            else if data_sz mod 16 \<noteq> 0 then Some (TEE_ERROR_BAD_PARAMETERS, params, s1, w1)
            else
              (case TEE_CipherUpdate (cipher env) (update_res env) (enc_op s1) plaintext
                      (memref_size (p1 params)) w1 of
                 None \<Rightarrow> None
               | Some (res, out, w2) \<Rightarrow>
                   if res \<noteq> TEE_SUCCESS then Some (res, params, s1, w2)
                   else
                     (let us = elapsed_us (start_time env) (end_time env) in
                      Some (TEE_SUCCESS,
                        params\<lparr>p1 := (p1 params)\<lparr>memref_buffer :=
                                    TEE_MemMove (memref_buffer (p1 params)) 0 out,
                                  memref_size := length out\<rparr>,
                               p3 := (p3 params)\<lparr>value_a := us\<rparr>\<rparr>,
                        s1\<lparr>total_enc_time_us := total_enc_time_us s1 + us,
                           total_bytes := total_bytes s1 + data_sz\<rparr>,
                        w2)))))"

text \<open>The block \<open>if (is_first) { ... }\<close> of \<open>decrypt_chunk\<close>, read as above.\<close>

definition decrypt_chunk_first ::
  "crypto_env \<Rightarrow> crypto_session \<Rightarrow> tee_crypto \<Rightarrow> (TEE_Result \<times> crypto_session \<times> tee_crypto) option" where
  "decrypt_chunk_first env sess w =
     (if \<not> initialized sess then Some (TEE_ERROR_BAD_STATE, sess, w)
      else
        (case init_decryption env sess w of
           None \<Rightarrow> None
         | Some (res, s1, w1) \<Rightarrow>
             if res \<noteq> TEE_SUCCESS then Some (res, s1, w1)
             else Some (TEE_SUCCESS, s1\<lparr>total_dec_time_us := 0\<rparr>, w1)))"

definition decrypt_chunk ::
  "crypto_env \<Rightarrow> u32 \<Rightarrow> TEE_Params \<Rightarrow> crypto_session \<Rightarrow> tee_crypto
     \<Rightarrow> (TEE_Result \<times> TEE_Params \<times> crypto_session \<times> tee_crypto) option" where
  "decrypt_chunk env param_types params sess w =
     (let exp_param_types = crypt_chunk_param_types;
          data_sz = memref_size (p0 params);
          ciphertext = take data_sz (memref_buffer (p0 params));
          is_first = value_a (p2 params)
      in
      if param_types \<noteq> exp_param_types then Some (TEE_ERROR_BAD_PARAMETERS, params, sess, w)
      else if data_sz > CHUNK_SIZE then Some (TEE_ERROR_BAD_PARAMETERS, params, sess, w)
      else
       (case (if is_first \<noteq> 0 then decrypt_chunk_first env sess w
              else Some (TEE_SUCCESS, sess, w)) of
          None \<Rightarrow> None
        | Some (res, s1, w1) \<Rightarrow>
            if res \<noteq> TEE_SUCCESS then Some (res, params, s1, w1)
            else
              (case TEE_CipherUpdate (cipher env) (update_res env) (dec_op s1) ciphertext
                      (memref_size (p1 params)) w1 of
                 None \<Rightarrow> None
               | Some (res, out, w2) \<Rightarrow>
                   if res \<noteq> TEE_SUCCESS then Some (res, params, s1, w2)
                   else
                     (let us = elapsed_us (start_time env) (end_time env) in
                      Some (TEE_SUCCESS,
                        params\<lparr>p1 := (p1 params)\<lparr>memref_buffer :=
                                    TEE_MemMove (memref_buffer (p1 params)) 0 out,
                                  memref_size := length out\<rparr>,
                               p3 := (p3 params)\<lparr>value_a := us\<rparr>\<rparr>,
                        s1\<lparr>total_dec_time_us := total_dec_time_us s1 + us\<rparr>,
                        w2)))))"

definition finalize_operation ::
  "u32 \<Rightarrow> TEE_Params \<Rightarrow> crypto_session \<Rightarrow> TEE_Result \<times> TEE_Params" where
  "finalize_operation param_types params sess =
     (if param_types \<noteq>
           TEE_PARAM_TYPES TEE_PARAM_TYPE_VALUE_OUTPUT TEE_PARAM_TYPE_VALUE_OUTPUT
             TEE_PARAM_TYPE_VALUE_OUTPUT TEE_PARAM_TYPE_NONE
      then (TEE_ERROR_BAD_PARAMETERS, params)
      else (TEE_SUCCESS,
        params\<lparr>p0 := (p0 params)\<lparr>value_a := total_enc_time_us sess div 1000\<rparr>,
               p1 := (p1 params)\<lparr>value_a := total_dec_time_us sess div 1000\<rparr>,
               p2 := (p2 params)\<lparr>value_a := word_of_nat (total_bytes sess)\<rparr>\<rparr>))"

definition reset_session ::
  "crypto_session \<Rightarrow> tee_crypto \<Rightarrow> (TEE_Result \<times> crypto_session \<times> tee_crypto) option" where
  "reset_session sess w =
     (case (if enc_op sess \<noteq> TEE_HANDLE_NULL then TEE_FreeOperation (enc_op sess) w else Some w) of
        None \<Rightarrow> None
      | Some w1 \<Rightarrow>
          (case (if dec_op sess \<noteq> TEE_HANDLE_NULL then TEE_FreeOperation (dec_op sess) w1
                 else Some w1) of
             None \<Rightarrow> None
           | Some w2 \<Rightarrow>
               Some (TEE_SUCCESS,
                 sess\<lparr>enc_op := TEE_HANDLE_NULL, dec_op := TEE_HANDLE_NULL,
                      total_enc_time_us := 0, total_dec_time_us := 0, total_bytes := 0\<rparr>,
                 w2)))"

text \<open>The session starts zero-filled.\<close>

definition TA_OpenSessionEntryPoint_crypto :: "bool \<Rightarrow> TEE_Result \<times> crypto_session option" where
  "TA_OpenSessionEntryPoint_crypto alloc_ok =
     (if \<not> alloc_ok then (TEE_ERROR_OUT_OF_MEMORY, None)
      else (TEE_SUCCESS,
        Some \<lparr>enc_op = TEE_HANDLE_NULL, dec_op = TEE_HANDLE_NULL, key_handle = TEE_HANDLE_NULL,
              iv = replicate AES_IV_SIZE 0, initialized = False, total_enc_time_us = 0,
              total_dec_time_us = 0, total_bytes = 0\<rparr>))"

definition TA_CloseSessionEntryPoint_crypto ::
  "crypto_session option \<Rightarrow> tee_crypto \<Rightarrow> tee_crypto option" where
  "TA_CloseSessionEntryPoint_crypto session w =
     (case session of
        None \<Rightarrow> Some w
      | Some sess \<Rightarrow>
          (case (if enc_op sess \<noteq> TEE_HANDLE_NULL then TEE_FreeOperation (enc_op sess) w
                 else Some w) of
             None \<Rightarrow> None
           | Some w1 \<Rightarrow>
               (case (if dec_op sess \<noteq> TEE_HANDLE_NULL then TEE_FreeOperation (dec_op sess) w1
                      else Some w1) of
                  None \<Rightarrow> None
                | Some w2 \<Rightarrow>
                    if initialized sess \<and> key_handle sess \<noteq> TEE_HANDLE_NULL
                    then TEE_FreeTransientObject (key_handle sess) w2 else Some w2)))"

definition TA_SECURE_STORAGE_CMD_ENCRYPT_CHUNK :: u32 where "TA_SECURE_STORAGE_CMD_ENCRYPT_CHUNK = 0"
definition TA_SECURE_STORAGE_CMD_DECRYPT_CHUNK :: u32 where "TA_SECURE_STORAGE_CMD_DECRYPT_CHUNK = 1"
definition TA_SECURE_STORAGE_CMD_FINALIZE :: u32 where "TA_SECURE_STORAGE_CMD_FINALIZE = 2"
definition TA_SECURE_STORAGE_CMD_RESET :: u32 where "TA_SECURE_STORAGE_CMD_RESET = 3"

definition TA_InvokeCommandEntryPoint_crypto ::
  "crypto_env \<Rightarrow> crypto_session \<Rightarrow> u32 \<Rightarrow> u32 \<Rightarrow> TEE_Params \<Rightarrow> tee_crypto
     \<Rightarrow> (TEE_Result \<times> TEE_Params \<times> crypto_session \<times> tee_crypto) option" where
  "TA_InvokeCommandEntryPoint_crypto env sess command param_types params w =
     (if command = TA_SECURE_STORAGE_CMD_ENCRYPT_CHUNK then encrypt_chunk env param_types params sess w
      else if command = TA_SECURE_STORAGE_CMD_DECRYPT_CHUNK then decrypt_chunk env param_types params sess w
      else if command = TA_SECURE_STORAGE_CMD_FINALIZE then
        (case finalize_operation param_types params sess of
           (res, params') \<Rightarrow> Some (res, params', sess, w))
      else if command = TA_SECURE_STORAGE_CMD_RESET then
        (case reset_session sess w of
           None \<Rightarrow> None
         | Some (res, sess', w') \<Rightarrow> Some (res, params, sess', w'))
      else Some (TEE_ERROR_NOT_SUPPORTED, params, sess, w))"

text \<open>
  A session's commands one after the other, each with what the environment decides
  during it; \<open>None\<close> when one of them ends in a panic.
\<close>

fun run_commands ::
  "(crypto_env \<times> u32 \<times> u32 \<times> TEE_Params) list \<Rightarrow> crypto_session \<Rightarrow> tee_crypto
     \<Rightarrow> (crypto_session \<times> tee_crypto) option" where
  "run_commands [] sess w = Some (sess, w)"
| "run_commands ((env, command, param_types, params) # rest) sess w =
     (case TA_InvokeCommandEntryPoint_crypto env sess command param_types params w of
        None \<Rightarrow> None
      | Some (res, params', sess', w') \<Rightarrow> run_commands rest sess' w')"

text \<open>The environment grants the two key-container primitives during a command.\<close>

definition key_setup_granted :: "crypto_env \<times> u32 \<times> u32 \<times> TEE_Params \<Rightarrow> bool" where
  "key_setup_granted c =
     (alloc_object_res (fst c) = TEE_SUCCESS \<and> populate_res (fst c) = TEE_SUCCESS)"

section \<open>Erasing the key material\<close>

text \<open>
  To say that key bytes reach no output parameter, the key material is erased from the
  state: the session's IV, the content of every key container and the key and IV held
  by every cipher operation become empty, and the random source returns nothing. A
  cipher is key-blind when its output does not depend on the key and the IV it is given;
  for such a cipher the key can reach an output only if the code itself copies it there.
\<close>

definition erase_session :: "crypto_session \<Rightarrow> crypto_session" where
  "erase_session s = s\<lparr>iv := []\<rparr>"

definition erase_key :: "byte list option \<Rightarrow> byte list option" where
  "erase_key k = map_option (\<lambda>_. []) k"

definition erase_op :: "cipher_op \<Rightarrow> cipher_op" where
  "erase_op opn = opn\<lparr>op_key := erase_key (op_key opn), op_iv := erase_key (op_iv opn)\<rparr>"

definition erase_world :: "tee_crypto \<Rightarrow> tee_crypto" where
  "erase_world w =
     w\<lparr>transient := map (\<lambda>(h, k). (h, erase_key k)) (transient w),
       operations := map (\<lambda>(h, opn). (h, erase_op opn)) (operations w)\<rparr>"

definition erase_env :: "crypto_env \<Rightarrow> crypto_env" where
  "erase_env env = env\<lparr>random_source := (\<lambda>_ _. [])\<rparr>"

definition key_blind ::
  "(cipher_mode \<Rightarrow> byte list \<Rightarrow> byte list \<Rightarrow> byte list \<Rightarrow> byte list \<Rightarrow> byte list) \<Rightarrow> bool" where
  "key_blind ciph = (\<forall>m k k' i i' fed x. ciph m k i fed x = ciph m k' i' fed x)"

section \<open>Concrete inputs\<close>

text \<open>
  Small inputs on which the theorems below are instantiated: parameters of each kind,
  the identifier \<open>obj1\<close>, an empty store, and a crypto environment whose random source
  returns the draw number repeated and whose cipher returns its input.
\<close>

definition memref_param :: "byte list \<Rightarrow> TEE_Param" where
  "memref_param bs = \<lparr>memref_buffer = bs, memref_size = length bs, value_a = 0, value_b = 0\<rparr>"

definition value_param :: "u32 \<Rightarrow> TEE_Param" where
  "value_param x = \<lparr>memref_buffer = [], memref_size = 0, value_a = x, value_b = 0\<rparr>"

definition obj1 :: obj_id where
  "obj1 = [0x6f, 0x62, 0x6a, 0x31]"

definition empty_store :: tee_storage where
  "empty_store = \<lparr>objects = Map.empty, handles = []\<rparr>"

definition chunk_params :: "byte list \<Rightarrow> u32 \<Rightarrow> TEE_Params" where
  "chunk_params bs is_first =
     \<lparr>p0 = memref_param obj1, p1 = memref_param bs, p2 = value_param is_first, p3 = value_param 0\<rparr>"

definition read_params :: "nat \<Rightarrow> TEE_Params" where
  "read_params n =
     \<lparr>p0 = memref_param obj1, p1 = memref_param (replicate n 0), p2 = value_param 0,
      p3 = value_param 0\<rparr>"

definition crypt_params :: "byte list \<Rightarrow> u32 \<Rightarrow> TEE_Params" where
  "crypt_params bs is_first =
     \<lparr>p0 = memref_param bs, p1 = memref_param (replicate (length bs) 0),
      p2 = value_param is_first, p3 = value_param 0\<rparr>"

definition plain_env :: crypto_env where
  "plain_env =
     \<lparr>random_source = (\<lambda>i n. replicate n (word_of_nat i)),
      cipher = (\<lambda>m k i fed x. x),
      alloc_object_res = TEE_SUCCESS, populate_res = TEE_SUCCESS, alloc_op_res = TEE_SUCCESS,
      set_key_res = TEE_SUCCESS, update_res = TEE_SUCCESS,
      start_time = \<lparr>seconds = 0, millis = 0\<rparr>, end_time = \<lparr>seconds = 0, millis = 1\<rparr>\<rparr>"

definition new_session :: crypto_session where
  "new_session =
     \<lparr>enc_op = TEE_HANDLE_NULL, dec_op = TEE_HANDLE_NULL, key_handle = TEE_HANDLE_NULL,
      iv = replicate AES_IV_SIZE 0, initialized = False, total_enc_time_us = 0,
      total_dec_time_us = 0, total_bytes = 0\<rparr>"

definition keyed_session :: crypto_session where
  "keyed_session = new_session\<lparr>key_handle := 1, initialized := True\<rparr>"

definition empty_crypto :: tee_crypto where
  "empty_crypto = \<lparr>transient = [], operations = [], rng = 0\<rparr>"

definition keyed_crypto :: tee_crypto where
  "keyed_crypto = \<lparr>transient = [(1, Some (replicate 32 7))], operations = [], rng = 2\<rparr>"

section \<open>Handles\<close>


lemma foldr_max_ge: "k \<in> set ks \<Longrightarrow> k \<le> foldr max ks (a::nat)"
  by (induction ks) auto

lemma fresh_handle_not_key: "fresh_handle tab \<notin> fst ` set tab"
proof
  assume "fresh_handle tab \<in> fst ` set tab"
  then have "fresh_handle tab \<in> set (map fst tab)" by simp
  then have "fresh_handle tab \<le> foldr max (map fst tab) 0" by (rule foldr_max_ge)
  then show False by (simp add: fresh_handle_def)
qed

lemma fresh_handle_unused: "map_of tab (fresh_handle tab) = None"
  using fresh_handle_not_key [of tab] by (simp add: map_of_eq_None_iff)

lemma fresh_handle_not_null: "fresh_handle tab \<noteq> TEE_HANDLE_NULL"
  by (simp add: fresh_handle_def TEE_HANDLE_NULL_def)

lemma delete_fresh_handle: "AList.delete (fresh_handle tab) tab = tab"
  by (simp add: fresh_handle_not_key)

section \<open>Reading an object\<close>

lemma next_chunk_size_bounds:
  "t < d \<Longrightarrow> 0 < next_chunk_size d t \<and> next_chunk_size d t \<le> CHUNK_SIZE \<and> t + next_chunk_size d t \<le> d"
  by (auto simp add: next_chunk_size_def CHUNK_SIZE_def)

lemma TEE_ReadObjectData_head:
  assumes "handles w = (h, oo) # hs" "objects w (oo_id oo) = Some content"
    and "verdict (oo_pos oo) n = ReadAll"
  shows "TEE_ReadObjectData verdict h n w =
     Some (TEE_SUCCESS, take n (drop (oo_pos oo) content),
       w\<lparr>handles := (h, oo\<lparr>oo_pos := oo_pos oo + length (take n (drop (oo_pos oo) content))\<rparr>) # hs\<rparr>)"
  using assms by (simp add: TEE_ReadObjectData_def Let_def)

lemma read_loop_complete:
  assumes env: "\<forall>pos n. n \<le> CHUNK_SIZE \<longrightarrow> read_res env pos n = ReadAll"
    and obj: "objects w (oo_id oo) = Some content"
    and hd: "handles w = (h, oo) # hs"
    and pos: "oo_pos oo = total_read"
    and le: "total_read \<le> length content"
    and buf: "length content \<le> length buf"
  shows "read_loop env h (length content) buf total_read w =
     Some (TEE_SUCCESS, take total_read buf @ drop total_read content @ drop (length content) buf,
       length content, w\<lparr>handles := (h, oo\<lparr>oo_pos := length content\<rparr>) # hs\<rparr>)"
  using obj hd pos le buf
proof (induction "length content - total_read" arbitrary: total_read buf w oo rule: less_induct)
  case less
  show ?case
  proof (cases "total_read < length content")
    case False
    with less.prems have eq: "total_read = length content" by simp
    have "w\<lparr>handles := (h, oo\<lparr>oo_pos := length content\<rparr>) # hs\<rparr> = w"
      using less.prems eq by simp
    with eq less.prems show ?thesis by (simp add: read_loop.simps [of env h "length content" buf "length content" w])
  next
    case True
    define n where "n = next_chunk_size (length content) total_read"
    have n: "0 < n" "n \<le> CHUNK_SIZE" "total_read + n \<le> length content"
      using next_chunk_size_bounds [OF True] by (simp_all add: n_def)
    define got where "got = take n (drop total_read content)"
    have lgot: "length got = n" using n by (simp add: got_def)
    define oo' where "oo' = oo\<lparr>oo_pos := total_read + n\<rparr>"
    define w' where "w' = w\<lparr>handles := (h, oo') # hs\<rparr>"
    have rd: "TEE_ReadObjectData (read_res env) h n w = Some (TEE_SUCCESS, got, w')"
      using TEE_ReadObjectData_head [of w h oo hs content "read_res env" n] less.prems env n lgot
      by (simp add: got_def w'_def oo'_def)
    define buf' where "buf' = TEE_MemMove buf total_read got"
    have lbuf': "length buf' = length buf"
      using n less.prems lgot by (simp add: buf'_def TEE_MemMove_def)
    have ih: "read_loop env h (length content) buf' (total_read + n) w' =
       Some (TEE_SUCCESS, take (total_read + n) buf' @ drop (total_read + n) content @ drop (length content) buf',
         length content, w'\<lparr>handles := (h, oo'\<lparr>oo_pos := length content\<rparr>) # hs\<rparr>)"
      by (rule less.hyps [where oo = oo' and w = w']) (use n less.prems lbuf' in \<open>simp_all add: w'_def oo'_def\<close>)
    have t1: "take (total_read + n) buf' = take total_read buf @ got"
      using n less.prems lgot by (simp add: buf'_def TEE_MemMove_def)
    have t2: "drop (length content) buf' = drop (length content) buf"
      using n less.prems lgot by (simp add: buf'_def TEE_MemMove_def)
    have t3: "got @ drop (total_read + n) content = drop total_read content"
      unfolding got_def by (metis add.commute append_take_drop_id drop_drop)
    have t4: "w'\<lparr>handles := (h, oo'\<lparr>oo_pos := length content\<rparr>) # hs\<rparr> = w\<lparr>handles := (h, oo\<lparr>oo_pos := length content\<rparr>) # hs\<rparr>"
      by (simp add: w'_def oo'_def)
    have "read_loop env h (length content) buf total_read w = read_loop env h (length content) buf' (total_read + n) w'"
      using True rd lgot by (simp add: read_loop.simps [of env h "length content" buf total_read w] n_def [symmetric] buf'_def)
    with ih t1 t2 t3 t4 show ?thesis by simp
  qed
qed


lemma TEE_ReadObjectData_head_short:
  assumes "handles w = (h, oo) # hs" "objects w (oo_id oo) = Some content"
    and "verdict (oo_pos oo) n = ReadShort m"
  shows "TEE_ReadObjectData verdict h n w =
     Some (TEE_SUCCESS, take (min n m) (drop (oo_pos oo) content),
       w\<lparr>handles := (h, oo\<lparr>oo_pos := oo_pos oo + length (take (min n m) (drop (oo_pos oo) content))\<rparr>) # hs\<rparr>)"
  using assms by (simp add: TEE_ReadObjectData_def Let_def)

lemma read_loop_short_read:
  assumes before: "\<forall>pos n. pos < k \<longrightarrow> read_res env pos n = ReadAll"
    and at: "read_res env k (next_chunk_size (length content) k) = ReadShort m"
    and m: "m < next_chunk_size (length content) k"
    and k: "k < length content" "k = total_read + j * CHUNK_SIZE"
    and obj: "objects w (oo_id oo) = Some content"
    and hd: "handles w = (h, oo) # hs"
    and pos: "oo_pos oo = total_read"
  shows "\<exists>buf' oo'. read_loop env h (length content) buf total_read w =
     Some (TEE_ERROR_GENERIC, buf', k, w\<lparr>handles := (h, oo') # hs\<rparr>)"
  using k obj hd pos
proof (induction j arbitrary: total_read buf w oo)
  case 0
  then have tk: "total_read = k" by simp
  define n where "n = next_chunk_size (length content) k"
  define got where "got = take (min n m) (drop k content)"
  have lgot: "length got \<noteq> n" using m by (simp add: got_def n_def)
  have rd: "TEE_ReadObjectData (read_res env) h n w =
      Some (TEE_SUCCESS, got, w\<lparr>handles := (h, oo\<lparr>oo_pos := k + length got\<rparr>) # hs\<rparr>)"
    using TEE_ReadObjectData_head_short [of w h oo hs content "read_res env" n m] "0.prems"(3-5) at tk
    by (simp add: got_def n_def)
  have "read_loop env h (length content) buf total_read w =
      Some (TEE_ERROR_GENERIC, buf, k, w\<lparr>handles := (h, oo\<lparr>oo_pos := k + length got\<rparr>) # hs\<rparr>)"
    using "0.prems"(1) rd lgot tk
    by (simp add: read_loop.simps [of env h "length content" buf k w] n_def [symmetric])
  then show ?case by blast
next
  case (Suc j)
  have lt: "total_read < k" using Suc.prems by (simp add: CHUNK_SIZE_def)
  have far: "length content - total_read > CHUNK_SIZE" using Suc.prems by simp
  then have n: "next_chunk_size (length content) total_read = CHUNK_SIZE"
    by (simp add: next_chunk_size_def)
  define got where "got = take CHUNK_SIZE (drop total_read content)"
  have lgot: "length got = CHUNK_SIZE" using far by (simp add: got_def)
  define oo1 where "oo1 = oo\<lparr>oo_pos := total_read + CHUNK_SIZE\<rparr>"
  define w1 where "w1 = w\<lparr>handles := (h, oo1) # hs\<rparr>"
  have rd: "TEE_ReadObjectData (read_res env) h CHUNK_SIZE w = Some (TEE_SUCCESS, got, w1)"
    using TEE_ReadObjectData_head [of w h oo hs content "read_res env" CHUNK_SIZE] Suc.prems(3-5) before lt lgot
    by (simp add: got_def w1_def oo1_def)
  have step: "read_loop env h (length content) buf total_read w =
      read_loop env h (length content) (TEE_MemMove buf total_read got) (total_read + CHUNK_SIZE) w1"
    using far rd lgot n less_imp_diff_less [of 0 _ total_read]
    by (cases "total_read < length content") (simp_all add: read_loop.simps [of env h "length content" buf total_read w])
  have "\<exists>buf' oo'. read_loop env h (length content) (TEE_MemMove buf total_read got) (total_read + CHUNK_SIZE) w1 =
     Some (TEE_ERROR_GENERIC, buf', k, w1\<lparr>handles := (h, oo') # hs\<rparr>)"
    by (rule Suc.IH [where oo = oo1 and w = w1]) (use Suc.prems in \<open>simp_all add: w1_def oo1_def\<close>)
  with step show ?case by (simp add: w1_def)
qed

lemma read_raw_object_open:
  assumes "malloc_ok env 0" "malloc_ok env 1" "open_res env = TEE_SUCCESS" "info_res env = TEE_SUCCESS"
    and "objects w (take (memref_size (p0 params)) (memref_buffer (p0 params))) = Some content"
  shows "read_raw_object env read_raw_object_param_types params w =
    (let h = fresh_handle (handles w);
         oo = \<lparr>oo_id = take (memref_size (p0 params)) (memref_buffer (p0 params)),
               oo_flags = TEE_DATA_FLAG_ACCESS_READ OR TEE_DATA_FLAG_SHARE_READ, oo_pos = 0\<rparr>;
         w1 = w\<lparr>handles := (h, oo) # handles w\<rparr>
     in if length content > memref_size (p1 params) then
          read_exit TEE_ERROR_SHORT_BUFFER (params\<lparr>p1 := (p1 params)\<lparr>memref_size := length content\<rparr>\<rparr>) h w1
        else (case read_loop env h (length content) (memref_buffer (p1 params)) 0 w1 of
                      None \<Rightarrow> None
                    | Some (res, buf, total_read, w2) \<Rightarrow>
                        if res \<noteq> TEE_SUCCESS then
                          read_exit res (params\<lparr>p1 := (p1 params)\<lparr>memref_buffer := buf\<rparr>\<rparr>) h w2
                        else
                          read_exit res
                            (params\<lparr>p1 := (p1 params)\<lparr>memref_buffer := buf,
                               memref_size := total_read\<rparr>\<rparr>) h w2))"
  using assms
  by (simp add: read_raw_object_def read_raw_object_param_types_def TEE_OpenPersistentObject_def TEE_GetObjectInfo1_def Let_def)

lemma read_exit_head:
  "h = fresh_handle (handles w) \<Longrightarrow> read_exit res ps h (w\<lparr>handles := (h, oo) # handles w\<rparr>) = Some (res, ps, w)"
  by (simp add: read_exit_def TEE_CloseObject_def fresh_handle_not_null delete_fresh_handle)

lemma read_raw_object_short:
  assumes "malloc_ok env 0" "malloc_ok env 1" "open_res env = TEE_SUCCESS" "info_res env = TEE_SUCCESS"
    and "objects w (take (memref_size (p0 params)) (memref_buffer (p0 params))) = Some content"
    and "memref_size (p1 params) < length content"
  shows "read_raw_object env read_raw_object_param_types params w =
     Some (TEE_ERROR_SHORT_BUFFER, params\<lparr>p1 := (p1 params)\<lparr>memref_size := length content\<rparr>\<rparr>, w)"
  using assms by (simp add: read_raw_object_open Let_def read_exit_head)

lemma read_raw_object_full:
  assumes "malloc_ok env 0" "malloc_ok env 1" "open_res env = TEE_SUCCESS" "info_res env = TEE_SUCCESS"
    and "\<forall>pos n. n \<le> CHUNK_SIZE \<longrightarrow> read_res env pos n = ReadAll"
    and "objects w (take (memref_size (p0 params)) (memref_buffer (p0 params))) = Some content"
    and "length content \<le> memref_size (p1 params)"
    and "length (memref_buffer (p1 params)) = memref_size (p1 params)"
  shows "read_raw_object env read_raw_object_param_types params w =
     Some (TEE_SUCCESS,
       params\<lparr>p1 := (p1 params)\<lparr>memref_buffer := content @ drop (length content) (memref_buffer (p1 params)),
                memref_size := length content\<rparr>\<rparr>, w)"
proof -
  define h where "h = fresh_handle (handles w)"
  define oo where "oo = \<lparr>oo_id = take (memref_size (p0 params)) (memref_buffer (p0 params)),
               oo_flags = TEE_DATA_FLAG_ACCESS_READ OR TEE_DATA_FLAG_SHARE_READ, oo_pos = 0\<rparr>"
  define w1 where "w1 = w\<lparr>handles := (h, oo) # handles w\<rparr>"
  have loop: "read_loop env h (length content) (memref_buffer (p1 params)) 0 w1 =
     Some (TEE_SUCCESS, take 0 (memref_buffer (p1 params)) @ drop 0 content @ drop (length content) (memref_buffer (p1 params)),
       length content, w1\<lparr>handles := (h, oo\<lparr>oo_pos := length content\<rparr>) # handles w\<rparr>)"
    by (rule read_loop_complete) (use assms in \<open>simp_all add: w1_def oo_def\<close>)
  have ex: "\<And>res ps oo'. read_exit res ps h (w\<lparr>handles := (h, oo') # handles w\<rparr>) = Some (res, ps, w)"
    by (rule read_exit_head) (simp add: h_def)
  show ?thesis
    using assms loop ex
    by (simp add: read_raw_object_open Let_def h_def [symmetric] oo_def [symmetric] w1_def)
qed

lemma read_raw_object_mismatch:
  assumes "malloc_ok env 0" "malloc_ok env 1" "open_res env = TEE_SUCCESS" "info_res env = TEE_SUCCESS"
    and "objects w (take (memref_size (p0 params)) (memref_buffer (p0 params))) = Some content"
    and "length content \<le> memref_size (p1 params)"
    and "\<forall>pos n. pos < j * CHUNK_SIZE \<longrightarrow> read_res env pos n = ReadAll"
    and "j * CHUNK_SIZE < length content"
    and "read_res env (j * CHUNK_SIZE) (next_chunk_size (length content) (j * CHUNK_SIZE)) = ReadShort m"
    and "m < next_chunk_size (length content) (j * CHUNK_SIZE)"
  shows "\<exists>buf'. read_raw_object env read_raw_object_param_types params w =
     Some (TEE_ERROR_GENERIC, params\<lparr>p1 := (p1 params)\<lparr>memref_buffer := buf'\<rparr>\<rparr>, w)"
proof -
  define h where "h = fresh_handle (handles w)"
  define oo where "oo = \<lparr>oo_id = take (memref_size (p0 params)) (memref_buffer (p0 params)),
               oo_flags = TEE_DATA_FLAG_ACCESS_READ OR TEE_DATA_FLAG_SHARE_READ, oo_pos = 0\<rparr>"
  define w1 where "w1 = w\<lparr>handles := (h, oo) # handles w\<rparr>"
  have "\<exists>buf' oo'. read_loop env h (length content) (memref_buffer (p1 params)) 0 w1 =
     Some (TEE_ERROR_GENERIC, buf', j * CHUNK_SIZE, w1\<lparr>handles := (h, oo') # handles w\<rparr>)"
    by (rule read_loop_short_read [where m = m and j = j and oo = oo])
       (use assms in \<open>simp_all add: w1_def oo_def\<close>)
  then obtain buf' oo' where loop: "read_loop env h (length content) (memref_buffer (p1 params)) 0 w1 =
     Some (TEE_ERROR_GENERIC, buf', j * CHUNK_SIZE, w\<lparr>handles := (h, oo') # handles w\<rparr>)"
    by (auto simp: w1_def)
  have ex: "\<And>res ps oo'. read_exit res ps h (w\<lparr>handles := (h, oo') # handles w\<rparr>) = Some (res, ps, w)"
    by (rule read_exit_head) (simp add: h_def)
  have "read_raw_object env read_raw_object_param_types params w =
      Some (TEE_ERROR_GENERIC, params\<lparr>p1 := (p1 params)\<lparr>memref_buffer := buf'\<rparr>\<rparr>, w)"
    using assms loop ex
    by (simp add: read_raw_object_open Let_def h_def [symmetric] oo_def [symmetric] w1_def [symmetric])
  then show ?thesis by (rule exI)
qed

lemma read_raw_object_missing:
  assumes "malloc_ok env 0" "malloc_ok env 1" "open_res env = TEE_SUCCESS"
    and "objects w (take (memref_size (p0 params)) (memref_buffer (p0 params))) = None"
  shows "read_raw_object env read_raw_object_param_types params w =
     Some (TEE_ERROR_ITEM_NOT_FOUND, params, w)"
  using assms by (simp add: read_raw_object_def TEE_OpenPersistentObject_def Let_def)

lemma read_repeatedly_short:
  assumes "malloc_ok env 0" "malloc_ok env 1" "open_res env = TEE_SUCCESS" "info_res env = TEE_SUCCESS"
    and "objects w (take (memref_size (p0 params)) (memref_buffer (p0 params))) = Some content"
    and "memref_size (p1 params) < length content"
  shows "read_repeatedly n env read_raw_object_param_types params w =
     (replicate n (TEE_ERROR_SHORT_BUFFER, length content), w)"
  by (induction n) (simp_all add: read_raw_object_short [OF assms])

section \<open>The chunked write\<close>

lemma chunk_flags_overwrite:
  "(TEE_DATA_FLAG_ACCESS_WRITE OR TEE_DATA_FLAG_ACCESS_WRITE_META OR TEE_DATA_FLAG_OVERWRITE)
     AND TEE_DATA_FLAG_OVERWRITE \<noteq> 0"
  by (simp add: TEE_DATA_FLAG_ACCESS_WRITE_def TEE_DATA_FLAG_ACCESS_WRITE_META_def
      TEE_DATA_FLAG_OVERWRITE_def)

lemma first_chunk_outcome:
  assumes "malloc_ok env 0" "malloc_ok env 1" "memref_size (p1 params) \<le> CHUNK_SIZE"
    and "value_a (p2 params) \<noteq> 0" "create_res env = TEE_SUCCESS"
    and "ident = take (memref_size (p0 params)) (memref_buffer (p0 params))"
    and "data = take (memref_size (p1 params)) (memref_buffer (p1 params))"
    and "h = fresh_handle (handles w)"
  shows "write_raw_chunk env write_raw_chunk_param_types params sess w =
     (if write_res env \<noteq> TEE_SUCCESS then
        Some (write_res env, \<lparr>object = h, in_progress = False\<rparr>,
          w\<lparr>objects := (objects w)(ident := None)\<rparr>)
      else Some (TEE_SUCCESS, \<lparr>object = h, in_progress = True\<rparr>,
         w\<lparr>objects := (objects w)(ident \<mapsto> data),
           handles := (h, \<lparr>oo_id = ident,
              oo_flags = TEE_DATA_FLAG_ACCESS_WRITE OR TEE_DATA_FLAG_ACCESS_WRITE_META
                 OR TEE_DATA_FLAG_OVERWRITE,
              oo_pos = length data\<rparr>) # handles w\<rparr>))"
  using assms chunk_flags_overwrite
  by (simp add: write_raw_chunk_def Let_def
      TEE_CreatePersistentObject_def TEE_WriteObjectData_def TEE_CloseAndDeletePersistentObject1_def
      fresh_handle_not_null delete_fresh_handle)

lemma next_chunk_failure_outcome:
  assumes "malloc_ok env 0" "malloc_ok env 1" "memref_size (p1 params) \<le> CHUNK_SIZE"
    and "value_a (p2 params) = 0" "in_progress sess" "object sess \<noteq> TEE_HANDLE_NULL"
    and "map_of (handles w) (object sess) = Some oo"
    and "write_res env \<noteq> TEE_SUCCESS"
  shows "write_raw_chunk env write_raw_chunk_param_types params sess w =
        Some (write_res env, sess\<lparr>in_progress := False\<rparr>,
          w\<lparr>objects := (objects w)(oo_id oo := None),
            handles := AList.delete (object sess) (handles w)\<rparr>)"
  using assms
  by (simp add: write_raw_chunk_def Let_def
      TEE_WriteObjectData_def TEE_CloseAndDeletePersistentObject1_def)

text \<open>The two write commands keep the session's handle usable.\<close>

lemma handle_usable_new_session:
  "TA_OpenSessionEntryPoint_storage True = (TEE_SUCCESS, Some sess) \<Longrightarrow> handle_usable sess w"
  by (auto simp: TA_OpenSessionEntryPoint_storage_def handle_usable_def)

lemma handle_usable_write_raw_chunk:
  assumes "handle_usable sess w"
    and "write_raw_chunk env param_types params sess w = Some (res, sess', w')"
  shows "handle_usable sess' w'"
  using assms
  by (auto simp: write_raw_chunk_def Let_def handle_usable_def TEE_CreatePersistentObject_def
      TEE_WriteObjectData_def TEE_CloseAndDeletePersistentObject1_def AList.update_conv'
      split: if_splits option.splits)

lemma handle_usable_write_raw_final:
  assumes "write_raw_final sess w = Some (res, sess', w')"
  shows "handle_usable sess' w'"
  using assms
  by (auto simp: write_raw_final_def handle_usable_def split: if_splits option.splits)

section \<open>Claims about the storage application\<close>

text \<open>
  C1. When the append of a WRITE_CHUNK fails, the object being written is deleted, the
  session is no longer in progress and the append's error code is returned. The command
  reaches the append either as a first chunk whose create succeeded (the object is the
  one named by the command) or as a continuation chunk on an open handle (the object is
  the one the handle was opened on). Afterwards a READ of that identifier returns
  \<open>TEE_ERROR_ITEM_NOT_FOUND\<close>, and a new first chunk starts a write.
\<close>

theorem write_raw_chunk_append_failure_rolls_back:
  assumes "param_types = write_raw_chunk_param_types"
    and "memref_size (p1 params) \<le> CHUNK_SIZE" "malloc_ok env 0" "malloc_ok env 1"
    and "write_res env \<noteq> TEE_SUCCESS"
    and "value_a (p2 params) \<noteq> 0 \<and> create_res env = TEE_SUCCESS
           \<and> ident = take (memref_size (p0 params)) (memref_buffer (p0 params))
         \<or> value_a (p2 params) = 0 \<and> in_progress sess \<and> object sess \<noteq> TEE_HANDLE_NULL
           \<and> (\<exists>oo. map_of (handles w) (object sess) = Some oo \<and> oo_id oo = ident)"
    and "malloc_ok renv 0" "malloc_ok renv 1" "open_res renv = TEE_SUCCESS"
    and "take (memref_size (p0 rparams)) (memref_buffer (p0 rparams)) = ident"
    and "malloc_ok env2 0" "malloc_ok env2 1" "memref_size (p1 params2) \<le> CHUNK_SIZE"
    and "value_a (p2 params2) \<noteq> 0" "create_res env2 = TEE_SUCCESS" "write_res env2 = TEE_SUCCESS"
  shows "\<exists>sess' w'.
      write_raw_chunk env param_types params sess w = Some (write_res env, sess', w')
    \<and> \<not> in_progress sess'
    \<and> objects w' ident = None
    \<and> read_raw_object renv read_raw_object_param_types rparams w'
        = Some (TEE_ERROR_ITEM_NOT_FOUND, rparams, w')
    \<and> (\<exists>sess'' w''. write_raw_chunk env2 write_raw_chunk_param_types params2 sess' w'
          = Some (TEE_SUCCESS, sess'', w'') \<and> in_progress sess'')"
proof -
  have restart: "\<And>s v. \<exists>sess'' w''. write_raw_chunk env2 write_raw_chunk_param_types params2 s v
          = Some (TEE_SUCCESS, sess'', w'') \<and> in_progress sess''"
    using assms(11-16) by (simp add: first_chunk_outcome [OF _ _ _ _ _ refl refl refl])
  have gone: "\<And>v. objects v ident = None \<Longrightarrow>
      read_raw_object renv read_raw_object_param_types rparams v
        = Some (TEE_ERROR_ITEM_NOT_FOUND, rparams, v)"
    using assms(7-10) by (simp add: read_raw_object_missing)
  from assms(6) show ?thesis
  proof (elim disjE conjE exE)
    assume first: "value_a (p2 params) \<noteq> 0" "create_res env = TEE_SUCCESS"
      "ident = take (memref_size (p0 params)) (memref_buffer (p0 params))"
    define s1 where "s1 = \<lparr>object = fresh_handle (handles w), in_progress = False\<rparr>"
    define w1 where "w1 = w\<lparr>objects := (objects w)(ident := None)\<rparr>"
    have run: "write_raw_chunk env param_types params sess w = Some (write_res env, s1, w1)"
      using assms(1-5) first
      by (simp add: first_chunk_outcome [OF _ _ _ _ _ refl refl refl] s1_def w1_def)
    have "objects w1 ident = None" by (simp add: w1_def)
    with run gone [of w1] restart [of s1 w1] show ?thesis by (simp add: s1_def)
  next
    fix oo
    assume nxt: "value_a (p2 params) = 0" "in_progress sess" "object sess \<noteq> TEE_HANDLE_NULL"
      "map_of (handles w) (object sess) = Some oo" "oo_id oo = ident"
    define s1 where "s1 = sess\<lparr>in_progress := False\<rparr>"
    define w1 where "w1 = w\<lparr>objects := (objects w)(oo_id oo := None),
            handles := AList.delete (object sess) (handles w)\<rparr>"
    have run: "write_raw_chunk env param_types params sess w = Some (write_res env, s1, w1)"
      using assms(1-5) nxt(1-4) by (simp add: next_chunk_failure_outcome s1_def w1_def)
    have "objects w1 ident = None" using nxt(5) by (simp add: w1_def)
    with run gone [of w1] restart [of s1 w1] show ?thesis by (simp add: s1_def)
  qed
qed

theorem write_raw_chunk_append_failure_rolls_back_witness:
  "(\<exists>sess' w'.
      write_raw_chunk (reliable\<lparr>write_res := TEE_ERROR_STORAGE_NO_SPACE\<rparr>) write_raw_chunk_param_types
          (chunk_params [0xA1, 0xA1] 1) \<lparr>object = TEE_HANDLE_NULL, in_progress = False\<rparr> empty_store
        = Some (TEE_ERROR_STORAGE_NO_SPACE, sess', w')
    \<and> \<not> in_progress sess'
    \<and> objects w' obj1 = None
    \<and> read_raw_object reliable read_raw_object_param_types (read_params 1) w'
        = Some (TEE_ERROR_ITEM_NOT_FOUND, read_params 1, w')
    \<and> (\<exists>sess'' w''. write_raw_chunk reliable write_raw_chunk_param_types (chunk_params [0xA1] 1) sess' w'
          = Some (TEE_SUCCESS, sess'', w'') \<and> in_progress sess''))
   \<and> (\<exists>sess' w'.
      write_raw_chunk (reliable\<lparr>write_res := TEE_ERROR_STORAGE_NO_SPACE\<rparr>) write_raw_chunk_param_types
          (chunk_params [0xA1, 0xA1] 0) \<lparr>object = 1, in_progress = True\<rparr>
          \<lparr>objects = [obj1 \<mapsto> [0xA1]], handles = [(1, \<lparr>oo_id = obj1, oo_flags = 0x406, oo_pos = 1\<rparr>)]\<rparr>
        = Some (TEE_ERROR_STORAGE_NO_SPACE, sess', w')
    \<and> \<not> in_progress sess'
    \<and> objects w' obj1 = None
    \<and> read_raw_object reliable read_raw_object_param_types (read_params 1) w'
        = Some (TEE_ERROR_ITEM_NOT_FOUND, read_params 1, w')
    \<and> (\<exists>sess'' w''. write_raw_chunk reliable write_raw_chunk_param_types (chunk_params [0xA1] 1) sess' w'
          = Some (TEE_SUCCESS, sess'', w'') \<and> in_progress sess''))"
proof
  show "\<exists>sess' w'.
      write_raw_chunk (reliable\<lparr>write_res := TEE_ERROR_STORAGE_NO_SPACE\<rparr>) write_raw_chunk_param_types
          (chunk_params [0xA1, 0xA1] 1) \<lparr>object = TEE_HANDLE_NULL, in_progress = False\<rparr> empty_store
        = Some (TEE_ERROR_STORAGE_NO_SPACE, sess', w')
    \<and> \<not> in_progress sess'
    \<and> objects w' obj1 = None
    \<and> read_raw_object reliable read_raw_object_param_types (read_params 1) w'
        = Some (TEE_ERROR_ITEM_NOT_FOUND, read_params 1, w')
    \<and> (\<exists>sess'' w''. write_raw_chunk reliable write_raw_chunk_param_types (chunk_params [0xA1] 1) sess' w'
          = Some (TEE_SUCCESS, sess'', w'') \<and> in_progress sess'')"
    using write_raw_chunk_append_failure_rolls_back
      [of write_raw_chunk_param_types "chunk_params [0xA1, 0xA1] 1"
          "reliable\<lparr>write_res := TEE_ERROR_STORAGE_NO_SPACE\<rparr>" obj1
          "\<lparr>object = TEE_HANDLE_NULL, in_progress = False\<rparr>" empty_store
          reliable "read_params 1" reliable "chunk_params [0xA1] 1"]
    by (simp add: reliable_def chunk_params_def read_params_def memref_param_def value_param_def
        obj1_def CHUNK_SIZE_def)
  show "\<exists>sess' w'.
      write_raw_chunk (reliable\<lparr>write_res := TEE_ERROR_STORAGE_NO_SPACE\<rparr>) write_raw_chunk_param_types
          (chunk_params [0xA1, 0xA1] 0) \<lparr>object = 1, in_progress = True\<rparr>
          \<lparr>objects = [obj1 \<mapsto> [0xA1]], handles = [(1, \<lparr>oo_id = obj1, oo_flags = 0x406, oo_pos = 1\<rparr>)]\<rparr>
        = Some (TEE_ERROR_STORAGE_NO_SPACE, sess', w')
    \<and> \<not> in_progress sess'
    \<and> objects w' obj1 = None
    \<and> read_raw_object reliable read_raw_object_param_types (read_params 1) w'
        = Some (TEE_ERROR_ITEM_NOT_FOUND, read_params 1, w')
    \<and> (\<exists>sess'' w''. write_raw_chunk reliable write_raw_chunk_param_types (chunk_params [0xA1] 1) sess' w'
          = Some (TEE_SUCCESS, sess'', w'') \<and> in_progress sess'')"
    using write_raw_chunk_append_failure_rolls_back
      [of write_raw_chunk_param_types "chunk_params [0xA1, 0xA1] 0"
          "reliable\<lparr>write_res := TEE_ERROR_STORAGE_NO_SPACE\<rparr>" obj1
          "\<lparr>object = 1, in_progress = True\<rparr>"
          "\<lparr>objects = [obj1 \<mapsto> [0xA1]], handles = [(1, \<lparr>oo_id = obj1, oo_flags = 0x406, oo_pos = 1\<rparr>)]\<rparr>"
          reliable "read_params 1" reliable "chunk_params [0xA1] 1"]
    by (simp add: reliable_def chunk_params_def read_params_def memref_param_def value_param_def
        obj1_def CHUNK_SIZE_def TEE_HANDLE_NULL_def)
qed

text \<open>
  C2. A continuation chunk (\<open>is_first = 0\<close>) on a session with no write in progress
  changes neither the store nor the session, whatever else the command carries, and
  returns \<open>TEE_ERROR_BAD_STATE\<close> when it passes the checks the code makes before it looks
  at the state (parameter types, chunk size, the two allocations); a command stopped
  by one of those returns that check's code. WRITE_FINAL on such a session returns
  \<open>TEE_ERROR_BAD_STATE\<close> and changes nothing. WRITE_FINAL on a session with a write in
  progress closes the session's handle (nothing is open under \<open>TEE_HANDLE_NULL\<close>), clears
  \<open>in_progress\<close> and returns \<open>TEE_SUCCESS\<close>.
\<close>

theorem write_sequencing_bad_state:
  assumes "value_a (p2 params) = 0" "\<not> in_progress idle"
    and "in_progress busy" "handle_usable busy w"
  shows "write_raw_chunk env param_types params idle w =
        Some (if param_types = write_raw_chunk_param_types
                then if memref_size (p1 params) \<le> CHUNK_SIZE
                  then if malloc_ok env 0 \<and> malloc_ok env 1
                    then TEE_ERROR_BAD_STATE
                    else TEE_ERROR_OUT_OF_MEMORY
                  else TEE_ERROR_BAD_PARAMETERS
                else TEE_ERROR_BAD_PARAMETERS,
              idle, w)
    \<and> write_raw_final idle w = Some (TEE_ERROR_BAD_STATE, idle, w)
    \<and> write_raw_final busy w =
        Some (TEE_SUCCESS, busy\<lparr>in_progress := False\<rparr>,
          if object busy = TEE_HANDLE_NULL then w
          else w\<lparr>handles := AList.delete (object busy) (handles w)\<rparr>)
    \<and> map_of (AList.delete (object busy) (handles w)) (object busy) = None"
  using assms
  by (auto simp add: write_raw_chunk_def write_raw_final_def TEE_CloseObject_def Let_def
      AList.delete_conv' handle_usable_def)

theorem write_sequencing_bad_state_witness:
  "write_raw_chunk reliable write_raw_chunk_param_types (chunk_params [0xA1] 0)
       \<lparr>object = TEE_HANDLE_NULL, in_progress = False\<rparr>
       \<lparr>objects = [obj1 \<mapsto> [0xA1]], handles = [(1, \<lparr>oo_id = obj1, oo_flags = 0x406, oo_pos = 1\<rparr>)]\<rparr>
     = Some (TEE_ERROR_BAD_STATE, \<lparr>object = TEE_HANDLE_NULL, in_progress = False\<rparr>,
         \<lparr>objects = [obj1 \<mapsto> [0xA1]], handles = [(1, \<lparr>oo_id = obj1, oo_flags = 0x406, oo_pos = 1\<rparr>)]\<rparr>)
   \<and> write_raw_final \<lparr>object = TEE_HANDLE_NULL, in_progress = False\<rparr>
       \<lparr>objects = [obj1 \<mapsto> [0xA1]], handles = [(1, \<lparr>oo_id = obj1, oo_flags = 0x406, oo_pos = 1\<rparr>)]\<rparr>
     = Some (TEE_ERROR_BAD_STATE, \<lparr>object = TEE_HANDLE_NULL, in_progress = False\<rparr>,
         \<lparr>objects = [obj1 \<mapsto> [0xA1]], handles = [(1, \<lparr>oo_id = obj1, oo_flags = 0x406, oo_pos = 1\<rparr>)]\<rparr>)
   \<and> write_raw_final \<lparr>object = 1, in_progress = True\<rparr>
       \<lparr>objects = [obj1 \<mapsto> [0xA1]], handles = [(1, \<lparr>oo_id = obj1, oo_flags = 0x406, oo_pos = 1\<rparr>)]\<rparr>
     = Some (TEE_SUCCESS, \<lparr>object = 1, in_progress = False\<rparr>,
         \<lparr>objects = [obj1 \<mapsto> [0xA1]], handles = []\<rparr>)"
  using write_sequencing_bad_state
    [of "chunk_params [0xA1] 0" "\<lparr>object = TEE_HANDLE_NULL, in_progress = False\<rparr>"
        "\<lparr>object = 1, in_progress = True\<rparr>"
        "\<lparr>objects = [obj1 \<mapsto> [0xA1]], handles = [(1, \<lparr>oo_id = obj1, oo_flags = 0x406, oo_pos = 1\<rparr>)]\<rparr>"
        reliable write_raw_chunk_param_types]
  by (simp add: reliable_def chunk_params_def memref_param_def value_param_def CHUNK_SIZE_def
      TEE_HANDLE_NULL_def handle_usable_def)

text \<open>
  C3. A READ of an existing object into a buffer of at least \<open>dataSize\<close> bytes, with the
  allocations, the open and the size query granted. If the store delivers every
  sub-chunk of at most \<open>CHUNK_SIZE\<close> bytes in full (it may do anything on a larger
  request, so no larger request is made), the command returns \<open>TEE_SUCCESS\<close>, the buffer
  holds the object's bytes from offset 0 followed by what it held beyond them, the size
  field is \<open>dataSize\<close>, and the store is as before. If instead the sub-chunk at some
  offset \<open>j * CHUNK_SIZE\<close> comes back shorter than requested, after full sub-chunks
  before it, the command returns \<open>TEE_ERROR_GENERIC\<close> and leaves the size field alone.
\<close>

theorem read_raw_object_streams_object:
  assumes "param_types = read_raw_object_param_types"
    and "malloc_ok env 0" "malloc_ok env 1" "open_res env = TEE_SUCCESS" "info_res env = TEE_SUCCESS"
    and "objects w (take (memref_size (p0 params)) (memref_buffer (p0 params))) = Some content"
    and "length content \<le> memref_size (p1 params)"
    and "length (memref_buffer (p1 params)) = memref_size (p1 params)"
  shows "((\<forall>pos n. n \<le> CHUNK_SIZE \<longrightarrow> read_res env pos n = ReadAll) \<longrightarrow>
           read_raw_object env param_types params w =
             Some (TEE_SUCCESS,
               params\<lparr>p1 := (p1 params)\<lparr>memref_buffer :=
                           content @ drop (length content) (memref_buffer (p1 params)),
                         memref_size := length content\<rparr>\<rparr>, w))
    \<and> ((\<forall>pos n. pos < j * CHUNK_SIZE \<longrightarrow> read_res env pos n = ReadAll)
         \<and> j * CHUNK_SIZE < length content
         \<and> read_res env (j * CHUNK_SIZE) (next_chunk_size (length content) (j * CHUNK_SIZE))
             = ReadShort m
         \<and> m < next_chunk_size (length content) (j * CHUNK_SIZE) \<longrightarrow>
           (\<exists>buf'. read_raw_object env param_types params w =
             Some (TEE_ERROR_GENERIC, params\<lparr>p1 := (p1 params)\<lparr>memref_buffer := buf'\<rparr>\<rparr>, w)))"
proof (intro conjI impI)
  assume "\<forall>pos n. n \<le> CHUNK_SIZE \<longrightarrow> read_res env pos n = ReadAll"
  with assms show "read_raw_object env param_types params w =
             Some (TEE_SUCCESS,
               params\<lparr>p1 := (p1 params)\<lparr>memref_buffer :=
                           content @ drop (length content) (memref_buffer (p1 params)),
                         memref_size := length content\<rparr>\<rparr>, w)"
    by (simp add: read_raw_object_full)
next
  assume short: "(\<forall>pos n. pos < j * CHUNK_SIZE \<longrightarrow> read_res env pos n = ReadAll)
         \<and> j * CHUNK_SIZE < length content
         \<and> read_res env (j * CHUNK_SIZE) (next_chunk_size (length content) (j * CHUNK_SIZE))
             = ReadShort m
         \<and> m < next_chunk_size (length content) (j * CHUNK_SIZE)"
  show "\<exists>buf'. read_raw_object env param_types params w =
             Some (TEE_ERROR_GENERIC, params\<lparr>p1 := (p1 params)\<lparr>memref_buffer := buf'\<rparr>\<rparr>, w)"
    unfolding assms(1)
    by (rule read_raw_object_mismatch [where j = j and m = m and content = content])
       (use assms short in simp_all)
qed

theorem read_raw_object_streams_object_witness:
  "read_raw_object reliable read_raw_object_param_types (read_params 3)
       \<lparr>objects = [obj1 \<mapsto> [0xA1, 0xA2]], handles = []\<rparr>
     = Some (TEE_SUCCESS,
         \<lparr>p0 = memref_param obj1,
          p1 = \<lparr>memref_buffer = [0xA1, 0xA2, 0], memref_size = 2, value_a = 0, value_b = 0\<rparr>,
          p2 = value_param 0, p3 = value_param 0\<rparr>,
         \<lparr>objects = [obj1 \<mapsto> [0xA1, 0xA2]], handles = []\<rparr>)
   \<and> (\<exists>buf'. read_raw_object (reliable\<lparr>read_res := (\<lambda>pos n. ReadShort 1)\<rparr>)
          read_raw_object_param_types (read_params 3)
          \<lparr>objects = [obj1 \<mapsto> [0xA1, 0xA2]], handles = []\<rparr>
        = Some (TEE_ERROR_GENERIC,
            \<lparr>p0 = memref_param obj1,
             p1 = \<lparr>memref_buffer = buf', memref_size = 3, value_a = 0, value_b = 0\<rparr>,
             p2 = value_param 0, p3 = value_param 0\<rparr>,
            \<lparr>objects = [obj1 \<mapsto> [0xA1, 0xA2]], handles = []\<rparr>))"
proof
  show "read_raw_object reliable read_raw_object_param_types (read_params 3)
       \<lparr>objects = [obj1 \<mapsto> [0xA1, 0xA2]], handles = []\<rparr>
     = Some (TEE_SUCCESS,
         \<lparr>p0 = memref_param obj1,
          p1 = \<lparr>memref_buffer = [0xA1, 0xA2, 0], memref_size = 2, value_a = 0, value_b = 0\<rparr>,
          p2 = value_param 0, p3 = value_param 0\<rparr>,
         \<lparr>objects = [obj1 \<mapsto> [0xA1, 0xA2]], handles = []\<rparr>)"
    using read_raw_object_streams_object
      [of read_raw_object_param_types reliable
          "\<lparr>objects = [obj1 \<mapsto> [0xA1, 0xA2]], handles = []\<rparr>" "read_params 3" "[0xA1, 0xA2]" 0 0]
    by (simp add: reliable_def read_params_def memref_param_def value_param_def obj1_def
        numeral_3_eq_3)
  show "\<exists>buf'. read_raw_object (reliable\<lparr>read_res := (\<lambda>pos n. ReadShort 1)\<rparr>)
          read_raw_object_param_types (read_params 3)
          \<lparr>objects = [obj1 \<mapsto> [0xA1, 0xA2]], handles = []\<rparr>
        = Some (TEE_ERROR_GENERIC,
            \<lparr>p0 = memref_param obj1,
             p1 = \<lparr>memref_buffer = buf', memref_size = 3, value_a = 0, value_b = 0\<rparr>,
             p2 = value_param 0, p3 = value_param 0\<rparr>,
            \<lparr>objects = [obj1 \<mapsto> [0xA1, 0xA2]], handles = []\<rparr>)"
    using read_raw_object_streams_object
      [of read_raw_object_param_types "reliable\<lparr>read_res := (\<lambda>pos n. ReadShort 1)\<rparr>"
          "\<lparr>objects = [obj1 \<mapsto> [0xA1, 0xA2]], handles = []\<rparr>" "read_params 3" "[0xA1, 0xA2]" 0 1]
    by (simp add: reliable_def read_params_def memref_param_def value_param_def obj1_def
        numeral_3_eq_3 next_chunk_size_def CHUNK_SIZE_def)
qed

text \<open>
  C4. A READ of an existing object into a buffer smaller than \<open>dataSize\<close>, with the
  allocations, the open and the size query granted, returns \<open>TEE_ERROR_SHORT_BUFFER\<close>
  with the size field set to \<open>dataSize\<close>; the buffer content and the store are as
  before. So any number of such reads in a row each report \<open>dataSize\<close>, and a read with
  a buffer of exactly that size after them succeeds and reports \<open>dataSize\<close> (the store
  delivering each sub-chunk in full).
\<close>

theorem read_raw_object_size_negotiation:
  assumes "param_types = read_raw_object_param_types"
    and "malloc_ok env 0" "malloc_ok env 1" "open_res env = TEE_SUCCESS" "info_res env = TEE_SUCCESS"
    and "\<forall>pos n. n \<le> CHUNK_SIZE \<longrightarrow> read_res env pos n = ReadAll"
    and "objects w (take (memref_size (p0 params)) (memref_buffer (p0 params))) = Some content"
    and "memref_size (p1 params) < length content"
    and "length buf = length content"
  shows "read_raw_object env param_types params w =
           Some (TEE_ERROR_SHORT_BUFFER,
             params\<lparr>p1 := (p1 params)\<lparr>memref_size := length content\<rparr>\<rparr>, w)
    \<and> read_repeatedly n env param_types params w =
           (replicate n (TEE_ERROR_SHORT_BUFFER, length content), w)
    \<and> read_raw_object env param_types
           (params\<lparr>p1 := (p1 params)\<lparr>memref_buffer := buf, memref_size := length content\<rparr>\<rparr>)
           (snd (read_repeatedly n env param_types params w)) =
           Some (TEE_SUCCESS,
             params\<lparr>p1 := (p1 params)\<lparr>memref_buffer := content, memref_size := length content\<rparr>\<rparr>, w)"
proof -
  have short: "read_raw_object env param_types params w =
           Some (TEE_ERROR_SHORT_BUFFER,
             params\<lparr>p1 := (p1 params)\<lparr>memref_size := length content\<rparr>\<rparr>, w)"
    using assms by (simp add: read_raw_object_short)
  have rep: "read_repeatedly n env param_types params w =
           (replicate n (TEE_ERROR_SHORT_BUFFER, length content), w)"
    using assms by (simp add: read_repeatedly_short)
  have full: "read_raw_object env read_raw_object_param_types
           (params\<lparr>p1 := (p1 params)\<lparr>memref_buffer := buf, memref_size := length content\<rparr>\<rparr>) w =
           Some (TEE_SUCCESS,
             (params\<lparr>p1 := (p1 params)\<lparr>memref_buffer := buf, memref_size := length content\<rparr>\<rparr>)
               \<lparr>p1 := (p1 (params\<lparr>p1 := (p1 params)\<lparr>memref_buffer := buf, memref_size := length content\<rparr>\<rparr>))
                   \<lparr>memref_buffer := content @ drop (length content)
                        (memref_buffer (p1 (params\<lparr>p1 := (p1 params)\<lparr>memref_buffer := buf, memref_size := length content\<rparr>\<rparr>))),
                     memref_size := length content\<rparr>\<rparr>, w)"
    by (rule read_raw_object_full) (use assms in simp_all)
  show ?thesis
    using short rep full assms(1,9) by simp
qed

theorem read_raw_object_size_negotiation_witness:
  "read_raw_object reliable read_raw_object_param_types (read_params 1)
       \<lparr>objects = [obj1 \<mapsto> [0xA1, 0xA2]], handles = []\<rparr>
     = Some (TEE_ERROR_SHORT_BUFFER,
         (read_params 1)\<lparr>p1 := (p1 (read_params 1))\<lparr>memref_size := length [0xA1, 0xA2 :: byte]\<rparr>\<rparr>,
         \<lparr>objects = [obj1 \<mapsto> [0xA1, 0xA2]], handles = []\<rparr>)
   \<and> read_repeatedly 3 reliable read_raw_object_param_types (read_params 1)
       \<lparr>objects = [obj1 \<mapsto> [0xA1, 0xA2]], handles = []\<rparr>
     = (replicate 3 (TEE_ERROR_SHORT_BUFFER, length [0xA1, 0xA2 :: byte]),
        \<lparr>objects = [obj1 \<mapsto> [0xA1, 0xA2]], handles = []\<rparr>)
   \<and> read_raw_object reliable read_raw_object_param_types
       ((read_params 1)\<lparr>p1 := (p1 (read_params 1))\<lparr>memref_buffer := [0, 0],
           memref_size := length [0xA1, 0xA2 :: byte]\<rparr>\<rparr>)
       (snd (read_repeatedly 3 reliable read_raw_object_param_types (read_params 1)
          \<lparr>objects = [obj1 \<mapsto> [0xA1, 0xA2]], handles = []\<rparr>))
     = Some (TEE_SUCCESS,
         (read_params 1)\<lparr>p1 := (p1 (read_params 1))\<lparr>memref_buffer := [0xA1, 0xA2],
           memref_size := length [0xA1, 0xA2 :: byte]\<rparr>\<rparr>,
         \<lparr>objects = [obj1 \<mapsto> [0xA1, 0xA2]], handles = []\<rparr>)"
proof -
  let ?w = "\<lparr>objects = [obj1 \<mapsto> [0xA1, 0xA2]], handles = []\<rparr>"
  have env: "malloc_ok reliable 0" "malloc_ok reliable 1" "open_res reliable = TEE_SUCCESS"
    "info_res reliable = TEE_SUCCESS" "\<forall>pos n. n \<le> CHUNK_SIZE \<longrightarrow> read_res reliable pos n = ReadAll"
    by (simp_all add: reliable_def)
  have obj: "objects ?w (take (memref_size (p0 (read_params 1))) (memref_buffer (p0 (read_params 1))))
      = Some [0xA1, 0xA2]"
    by (simp add: read_params_def memref_param_def obj1_def)
  have small: "memref_size (p1 (read_params 1)) < length [0xA1, 0xA2 :: byte]"
    by (simp add: read_params_def memref_param_def)
  have buf: "length [0, 0 :: byte] = length [0xA1, 0xA2 :: byte]" by simp
  show ?thesis
    by (rule read_raw_object_size_negotiation [where n = 3, OF refl env obj small buf])
qed

text \<open>
  C5, as amended. A first chunk (\<open>is_first\<close> not 0) that passes the checks, with the
  create and the append granted, creates the object named by the command or replaces it
  by an empty one, with the access flags write, write-meta and overwrite (the read flag
  is not among them), stores the new handle in the session, sets \<open>in_progress\<close>, and
  appends the chunk: the object then holds exactly the chunk's bytes and the handle's
  position is past them.
\<close>

theorem write_raw_chunk_first_chunk_creates:
  assumes "param_types = write_raw_chunk_param_types"
    and "memref_size (p1 params) \<le> CHUNK_SIZE" "malloc_ok env 0" "malloc_ok env 1"
    and "value_a (p2 params) \<noteq> 0"
    and "create_res env = TEE_SUCCESS" "write_res env = TEE_SUCCESS"
    and "ident = take (memref_size (p0 params)) (memref_buffer (p0 params))"
    and "data = take (memref_size (p1 params)) (memref_buffer (p1 params))"
  shows "\<exists>sess' w'.
      write_raw_chunk env param_types params sess w = Some (TEE_SUCCESS, sess', w')
    \<and> in_progress sess'
    \<and> object sess' = fresh_handle (handles w)
    \<and> map_of (handles w) (object sess') = None
    \<and> map_of (handles w') (object sess') =
         Some \<lparr>oo_id = ident,
               oo_flags = TEE_DATA_FLAG_ACCESS_WRITE OR TEE_DATA_FLAG_ACCESS_WRITE_META
                 OR TEE_DATA_FLAG_OVERWRITE,
               oo_pos = length data\<rparr>
    \<and> TEE_DATA_FLAG_ACCESS_WRITE OR TEE_DATA_FLAG_ACCESS_WRITE_META OR TEE_DATA_FLAG_OVERWRITE
        \<noteq> TEE_DATA_FLAG_ACCESS_READ OR TEE_DATA_FLAG_ACCESS_WRITE
            OR TEE_DATA_FLAG_ACCESS_WRITE_META OR TEE_DATA_FLAG_OVERWRITE
    \<and> objects w' = (objects w)(ident \<mapsto> data)"
proof -
  have flags: "TEE_DATA_FLAG_ACCESS_WRITE OR TEE_DATA_FLAG_ACCESS_WRITE_META OR TEE_DATA_FLAG_OVERWRITE
        \<noteq> TEE_DATA_FLAG_ACCESS_READ OR TEE_DATA_FLAG_ACCESS_WRITE
            OR TEE_DATA_FLAG_ACCESS_WRITE_META OR TEE_DATA_FLAG_OVERWRITE"
    by (simp add: TEE_DATA_FLAG_ACCESS_READ_def TEE_DATA_FLAG_ACCESS_WRITE_def
        TEE_DATA_FLAG_ACCESS_WRITE_META_def TEE_DATA_FLAG_OVERWRITE_def)
  show ?thesis
    using assms flags
    by (simp add: first_chunk_outcome [OF _ _ _ _ _ refl refl refl] fresh_handle_unused)
qed

theorem write_raw_chunk_first_chunk_creates_witness:
  "\<exists>sess' w'.
      write_raw_chunk reliable write_raw_chunk_param_types (chunk_params [0xA1, 0xA1] 1)
          \<lparr>object = TEE_HANDLE_NULL, in_progress = False\<rparr> empty_store
        = Some (TEE_SUCCESS, sess', w')
    \<and> in_progress sess'
    \<and> object sess' = fresh_handle (handles empty_store)
    \<and> map_of (handles empty_store) (object sess') = None
    \<and> map_of (handles w') (object sess') =
         Some \<lparr>oo_id = obj1,
               oo_flags = TEE_DATA_FLAG_ACCESS_WRITE OR TEE_DATA_FLAG_ACCESS_WRITE_META
                 OR TEE_DATA_FLAG_OVERWRITE,
               oo_pos = length [0xA1, 0xA1 :: byte]\<rparr>
    \<and> TEE_DATA_FLAG_ACCESS_WRITE OR TEE_DATA_FLAG_ACCESS_WRITE_META OR TEE_DATA_FLAG_OVERWRITE
        \<noteq> TEE_DATA_FLAG_ACCESS_READ OR TEE_DATA_FLAG_ACCESS_WRITE
            OR TEE_DATA_FLAG_ACCESS_WRITE_META OR TEE_DATA_FLAG_OVERWRITE
    \<and> objects w' = (objects empty_store)(obj1 \<mapsto> [0xA1, 0xA1])"
proof -
  have env: "malloc_ok reliable 0" "malloc_ok reliable 1"
    "create_res reliable = TEE_SUCCESS" "write_res reliable = TEE_SUCCESS"
    by (simp_all add: reliable_def)
  have size: "memref_size (p1 (chunk_params [0xA1, 0xA1] 1)) \<le> CHUNK_SIZE"
    by (simp add: chunk_params_def memref_param_def CHUNK_SIZE_def)
  have first: "value_a (p2 (chunk_params [0xA1, 0xA1] 1)) \<noteq> 0"
    by (simp add: chunk_params_def value_param_def)
  have ident: "obj1 = take (memref_size (p0 (chunk_params [0xA1, 0xA1] 1)))
      (memref_buffer (p0 (chunk_params [0xA1, 0xA1] 1)))"
    by (simp add: chunk_params_def memref_param_def)
  have data: "[0xA1, 0xA1] = take (memref_size (p1 (chunk_params [0xA1, 0xA1] 1)))
      (memref_buffer (p1 (chunk_params [0xA1, 0xA1] 1)))"
    by (simp add: chunk_params_def memref_param_def)
  show ?thesis
    by (rule write_raw_chunk_first_chunk_creates
        [OF refl size env(1,2) first env(3,4) ident data])
qed

text \<open>
  C5, as stated, fails: on an empty store the first chunk \<open>[0xA1, 0xA1]\<close> for \<open>obj1\<close>
  leaves the object open with flags \<open>0x406\<close> (write, write-meta, overwrite), which is
  not read + write + write-meta + overwrite (\<open>0x407\<close>).
\<close>

theorem write_raw_chunk_flags_counterexample:
  "write_raw_chunk reliable write_raw_chunk_param_types (chunk_params [0xA1, 0xA1] 1)
       \<lparr>object = TEE_HANDLE_NULL, in_progress = False\<rparr> empty_store
     = Some (TEE_SUCCESS, \<lparr>object = 1, in_progress = True\<rparr>,
         \<lparr>objects = [obj1 \<mapsto> [0xA1, 0xA1]],
          handles = [(1, \<lparr>oo_id = obj1, oo_flags = 0x406, oo_pos = 2\<rparr>)]\<rparr>)
   \<and> (0x406 :: u32) \<noteq> TEE_DATA_FLAG_ACCESS_READ OR TEE_DATA_FLAG_ACCESS_WRITE
         OR TEE_DATA_FLAG_ACCESS_WRITE_META OR TEE_DATA_FLAG_OVERWRITE"
  by (simp add: write_raw_chunk_def Let_def reliable_def chunk_params_def memref_param_def
      value_param_def empty_store_def CHUNK_SIZE_def obj1_def
      TEE_CreatePersistentObject_def TEE_WriteObjectData_def fresh_handle_def
      TEE_DATA_FLAG_ACCESS_READ_def TEE_DATA_FLAG_ACCESS_WRITE_def
      TEE_DATA_FLAG_ACCESS_WRITE_META_def TEE_DATA_FLAG_OVERWRITE_def)

text \<open>
  C9. A first chunk that arrives while a write is in progress on an open handle, and
  whose create is granted, returns the verdict of the append and stores in the
  session the handle that the create has just allocated: a handle that was not open
  before, is not the null handle and is not the previous one. When the append is
  granted the write stays in progress, the stored handle is open on the object
  created under the identifier of the command, with the write, write-meta and
  overwrite flags and its position after the chunk, that object holds exactly the
  chunk, and the table of open handles is the previous table with this one entry
  added. When the append is refused the write is no longer in progress, the created
  object is deleted and the table of open handles is the previous one. In both
  cases the previous handle is still open as it was, and the previous object, when
  it has another identifier, keeps its content. Closing the session afterwards
  leaves the objects alone and closes exactly the stored handle: the table of open
  handles is again the one from before the command, where the previous handle is
  open and the stored one is not.
\<close>

theorem write_raw_chunk_restart_abandons_handle:
  assumes "param_types = write_raw_chunk_param_types"
    and "memref_size (p1 params) \<le> CHUNK_SIZE" "malloc_ok env 0" "malloc_ok env 1"
    and "value_a (p2 params) \<noteq> 0" "create_res env = TEE_SUCCESS"
    and "in_progress sess" "map_of (handles w) (object sess) = Some oo"
    and "ident = take (memref_size (p0 params)) (memref_buffer (p0 params))"
    and "data = take (memref_size (p1 params)) (memref_buffer (p1 params))"
    and "created = \<lparr>oo_id = ident,
           oo_flags = TEE_DATA_FLAG_ACCESS_WRITE OR TEE_DATA_FLAG_ACCESS_WRITE_META
              OR TEE_DATA_FLAG_OVERWRITE,
           oo_pos = length data\<rparr>"
  shows "\<exists>sess' w' w''.
      write_raw_chunk env param_types params sess w = Some (write_res env, sess', w')
    \<and> object sess' = fresh_handle (handles w)
    \<and> object sess' \<noteq> object sess
    \<and> object sess' \<noteq> TEE_HANDLE_NULL
    \<and> map_of (handles w) (object sess') = None
    \<and> in_progress sess' = (write_res env = TEE_SUCCESS)
    \<and> handles w' = (if write_res env = TEE_SUCCESS
                     then (object sess', created) # handles w else handles w)
    \<and> objects w' = (if write_res env = TEE_SUCCESS
                     then (objects w)(ident \<mapsto> data) else (objects w)(ident := None))
    \<and> map_of (handles w') (object sess') =
          (if write_res env = TEE_SUCCESS then Some created else None)
    \<and> map_of (handles w') (object sess) = Some oo
    \<and> (oo_id oo = ident \<or> objects w' (oo_id oo) = objects w (oo_id oo))
    \<and> TA_CloseSessionEntryPoint_storage (Some sess') w' = Some w''
    \<and> objects w'' = objects w'
    \<and> handles w'' = handles w
    \<and> map_of (handles w'') (object sess) = Some oo
    \<and> map_of (handles w'') (object sess') = None"
proof -
  define h where "h = fresh_handle (handles w)"
  have neq: "h \<noteq> object sess"
    using assms(8) fresh_handle_unused [of "handles w"] by (auto simp: h_def)
  have unused: "map_of (handles w) h = None" by (simp add: h_def fresh_handle_unused)
  have nn: "h \<noteq> TEE_HANDLE_NULL" by (simp add: h_def fresh_handle_not_null)
  have del: "AList.delete h (handles w) = handles w" by (simp add: h_def delete_fresh_handle)
  have run: "write_raw_chunk env param_types params sess w =
     (if write_res env \<noteq> TEE_SUCCESS then
        Some (write_res env, \<lparr>object = h, in_progress = False\<rparr>,
          w\<lparr>objects := (objects w)(ident := None)\<rparr>)
      else Some (TEE_SUCCESS, \<lparr>object = h, in_progress = True\<rparr>,
         w\<lparr>objects := (objects w)(ident \<mapsto> data),
           handles := (h, \<lparr>oo_id = ident,
              oo_flags = TEE_DATA_FLAG_ACCESS_WRITE OR TEE_DATA_FLAG_ACCESS_WRITE_META
                 OR TEE_DATA_FLAG_OVERWRITE,
              oo_pos = length data\<rparr>) # handles w\<rparr>))"
    unfolding assms(1)
    by (rule first_chunk_outcome) (use assms in \<open>simp_all add: h_def\<close>)
  show ?thesis
  proof (cases "write_res env = TEE_SUCCESS")
    case True
    let ?sess = "\<lparr>object = h, in_progress = True\<rparr>"
    let ?w = "w\<lparr>objects := (objects w)(ident \<mapsto> data), handles := (h, created) # handles w\<rparr>"
    have r: "write_raw_chunk env param_types params sess w = Some (write_res env, ?sess, ?w)"
      using run True by (simp add: assms(11))
    have c: "TA_CloseSessionEntryPoint_storage (Some ?sess) ?w =
        Some (w\<lparr>objects := (objects w)(ident \<mapsto> data)\<rparr>)"
      using nn del by (simp add: TA_CloseSessionEntryPoint_storage_def TEE_CloseObject_def)
    show ?thesis
      apply (rule exI [where x = ?sess])
      apply (rule exI [where x = ?w])
      apply (rule exI [where x = "w\<lparr>objects := (objects w)(ident \<mapsto> data)\<rparr>"])
      using r c True neq unused nn assms(8)
      by (simp add: h_def [symmetric])
  next
    case False
    let ?sess = "\<lparr>object = h, in_progress = False\<rparr>"
    let ?w = "w\<lparr>objects := (objects w)(ident := None)\<rparr>"
    have r: "write_raw_chunk env param_types params sess w = Some (write_res env, ?sess, ?w)"
      using run False by simp
    have c: "TA_CloseSessionEntryPoint_storage (Some ?sess) ?w = Some ?w"
      by (simp add: TA_CloseSessionEntryPoint_storage_def)
    show ?thesis
      apply (rule exI [where x = ?sess])
      apply (rule exI [where x = ?w])
      apply (rule exI [where x = ?w])
      using r c False neq unused nn assms(8)
      by (simp add: h_def [symmetric])
  qed
qed

theorem write_raw_chunk_restart_abandons_handle_witness:
  "\<exists>sess' w' w''.
      write_raw_chunk reliable write_raw_chunk_param_types (chunk_params [0xA1, 0xA2] 1)
          \<lparr>object = 1, in_progress = True\<rparr>
          \<lparr>objects = [[0x62] \<mapsto> [0xB2]],
           handles = [(1, \<lparr>oo_id = [0x62], oo_flags = 0x406, oo_pos = 1\<rparr>)]\<rparr>
        = Some (TEE_SUCCESS, sess', w')
    \<and> object sess' = 2
    \<and> in_progress sess'
    \<and> handles w' = [(2, \<lparr>oo_id = obj1, oo_flags = 0x406, oo_pos = 2\<rparr>),
                     (1, \<lparr>oo_id = [0x62], oo_flags = 0x406, oo_pos = 1\<rparr>)]
    \<and> objects w' = [[0x62] \<mapsto> [0xB2], obj1 \<mapsto> [0xA1, 0xA2]]
    \<and> map_of (handles w') (object sess') =
          Some \<lparr>oo_id = obj1, oo_flags = 0x406, oo_pos = 2\<rparr>
    \<and> map_of (handles w') 1 = Some \<lparr>oo_id = [0x62], oo_flags = 0x406, oo_pos = 1\<rparr>
    \<and> TA_CloseSessionEntryPoint_storage (Some sess') w' = Some w''
    \<and> objects w'' = [[0x62] \<mapsto> [0xB2], obj1 \<mapsto> [0xA1, 0xA2]]
    \<and> handles w'' = [(1, \<lparr>oo_id = [0x62], oo_flags = 0x406, oo_pos = 1\<rparr>)]
    \<and> map_of (handles w'') 1 = Some \<lparr>oo_id = [0x62], oo_flags = 0x406, oo_pos = 1\<rparr>
    \<and> map_of (handles w'') (object sess') = None"
  using write_raw_chunk_restart_abandons_handle
    [of write_raw_chunk_param_types "chunk_params [0xA1, 0xA2] 1" reliable
        "\<lparr>object = 1, in_progress = True\<rparr>"
        "\<lparr>objects = [[0x62] \<mapsto> [0xB2]],
           handles = [(1, \<lparr>oo_id = [0x62], oo_flags = 0x406, oo_pos = 1\<rparr>)]\<rparr>"
        "\<lparr>oo_id = [0x62], oo_flags = 0x406, oo_pos = 1\<rparr>" obj1 "[0xA1, 0xA2]"
        "\<lparr>oo_id = obj1, oo_flags = 0x406, oo_pos = 2\<rparr>"]
  by (clarsimp simp add: reliable_def chunk_params_def memref_param_def value_param_def
      CHUNK_SIZE_def obj1_def fresh_handle_def TEE_HANDLE_NULL_def
      TEE_DATA_FLAG_ACCESS_WRITE_def TEE_DATA_FLAG_ACCESS_WRITE_META_def
      TEE_DATA_FLAG_OVERWRITE_def)

section \<open>A run of the storage protocol\<close>

text \<open>
  The model computes. On an empty store: a first chunk of two bytes for \<open>obj1\<close>, a
  continuation chunk of one byte, the finalize, a READ with a 1-byte buffer (short
  buffer, required size 3) and a READ with a 3-byte buffer (the three bytes).
\<close>

lemmas storage_eval =
  write_raw_chunk_def write_raw_final_def read_raw_object_def read_exit_def
  TEE_CreatePersistentObject_def TEE_WriteObjectData_def TEE_OpenPersistentObject_def
  TEE_GetObjectInfo1_def TEE_ReadObjectData_def TEE_CloseObject_def
  TEE_CloseAndDeletePersistentObject1_def fresh_handle_def TEE_MemMove_def next_chunk_size_def
  reliable_def chunk_params_def read_params_def memref_param_def value_param_def empty_store_def
  obj1_def CHUNK_SIZE_def TEE_HANDLE_NULL_def Let_def
  TEE_DATA_FLAG_ACCESS_READ_def TEE_DATA_FLAG_ACCESS_WRITE_def
  TEE_DATA_FLAG_ACCESS_WRITE_META_def TEE_DATA_FLAG_OVERWRITE_def TEE_DATA_FLAG_SHARE_READ_def

lemma storage_round_trip:
  "write_raw_chunk reliable write_raw_chunk_param_types (chunk_params [0xA1, 0xA1] 1)
       \<lparr>object = TEE_HANDLE_NULL, in_progress = False\<rparr> empty_store
     = Some (TEE_SUCCESS, \<lparr>object = 1, in_progress = True\<rparr>,
         \<lparr>objects = [obj1 \<mapsto> [0xA1, 0xA1]],
          handles = [(1, \<lparr>oo_id = obj1, oo_flags = 0x406, oo_pos = 2\<rparr>)]\<rparr>)"
  "write_raw_chunk reliable write_raw_chunk_param_types (chunk_params [0xA1] 0)
       \<lparr>object = 1, in_progress = True\<rparr>
       \<lparr>objects = [obj1 \<mapsto> [0xA1, 0xA1]],
          handles = [(1, \<lparr>oo_id = obj1, oo_flags = 0x406, oo_pos = 2\<rparr>)]\<rparr>
     = Some (TEE_SUCCESS, \<lparr>object = 1, in_progress = True\<rparr>,
         \<lparr>objects = [obj1 \<mapsto> [0xA1, 0xA1, 0xA1]],
          handles = [(1, \<lparr>oo_id = obj1, oo_flags = 0x406, oo_pos = 3\<rparr>)]\<rparr>)"
  "write_raw_final \<lparr>object = 1, in_progress = True\<rparr>
       \<lparr>objects = [obj1 \<mapsto> [0xA1, 0xA1, 0xA1]],
          handles = [(1, \<lparr>oo_id = obj1, oo_flags = 0x406, oo_pos = 3\<rparr>)]\<rparr>
     = Some (TEE_SUCCESS, \<lparr>object = 1, in_progress = False\<rparr>,
         \<lparr>objects = [obj1 \<mapsto> [0xA1, 0xA1, 0xA1]], handles = []\<rparr>)"
  "read_raw_object reliable read_raw_object_param_types (read_params 1)
       \<lparr>objects = [obj1 \<mapsto> [0xA1, 0xA1, 0xA1]], handles = []\<rparr>
     = Some (TEE_ERROR_SHORT_BUFFER,
         \<lparr>p0 = memref_param obj1,
          p1 = \<lparr>memref_buffer = [0], memref_size = 3, value_a = 0, value_b = 0\<rparr>,
          p2 = value_param 0, p3 = value_param 0\<rparr>,
         \<lparr>objects = [obj1 \<mapsto> [0xA1, 0xA1, 0xA1]], handles = []\<rparr>)"
  "read_raw_object reliable read_raw_object_param_types (read_params 3)
       \<lparr>objects = [obj1 \<mapsto> [0xA1, 0xA1, 0xA1]], handles = []\<rparr>
     = Some (TEE_SUCCESS,
         \<lparr>p0 = memref_param obj1,
          p1 = \<lparr>memref_buffer = [0xA1, 0xA1, 0xA1], memref_size = 3, value_a = 0, value_b = 0\<rparr>,
          p2 = value_param 0, p3 = value_param 0\<rparr>,
         \<lparr>objects = [obj1 \<mapsto> [0xA1, 0xA1, 0xA1]], handles = []\<rparr>)"
      apply (simp add: storage_eval)
     apply (simp add: storage_eval)
    apply (simp add: storage_eval)
   apply (simp add: storage_eval numeral_3_eq_3)
  apply (simp add: storage_eval numeral_3_eq_3 read_loop.simps)
  done

section \<open>Keys, IV and cipher operations\<close>

lemma init_crypto_key_ok:
  assumes "alloc_object_res env = TEE_SUCCESS" "populate_res env = TEE_SUCCESS"
  shows "init_crypto_key env sess w =
     Some (TEE_SUCCESS,
       sess\<lparr>key_handle := fresh_handle (transient w),
            iv := random_source env (Suc (rng w)) AES_IV_SIZE\<rparr>,
       w\<lparr>transient := (fresh_handle (transient w), Some (random_source env (rng w) AES_KEY_SIZE)) # transient w,
         rng := Suc (Suc (rng w))\<rparr>)"
  using assms
  by (simp add: init_crypto_key_def TEE_GenerateRandom_def TEE_AllocateTransientObject_def
      TEE_PopulateTransientObject_def Let_def fresh_handle_unused)

lemma init_encryption_ok:
  assumes "alloc_op_res env = TEE_SUCCESS" "set_key_res env = TEE_SUCCESS"
    and "key_handle sess \<noteq> TEE_HANDLE_NULL" "map_of (transient w) (key_handle sess) = Some (Some secret)"
  shows "init_encryption env sess w =
     Some (TEE_SUCCESS, sess\<lparr>enc_op := fresh_handle (operations w)\<rparr>,
       w\<lparr>operations := (fresh_handle (operations w),
            \<lparr>op_mode = TEE_MODE_ENCRYPT, op_key = Some secret,
             op_iv = Some (take AES_IV_SIZE (iv sess)), op_fed = []\<rparr>) # operations w\<rparr>)"
  using assms
  by (simp add: init_encryption_def TEE_AllocateOperation_def TEE_SetOperationKey_def
      TEE_CipherInit_def Let_def)

lemma init_decryption_ok:
  assumes "alloc_op_res env = TEE_SUCCESS" "set_key_res env = TEE_SUCCESS"
    and "key_handle sess \<noteq> TEE_HANDLE_NULL" "map_of (transient w) (key_handle sess) = Some (Some secret)"
  shows "init_decryption env sess w =
     Some (TEE_SUCCESS, sess\<lparr>dec_op := fresh_handle (operations w)\<rparr>,
       w\<lparr>operations := (fresh_handle (operations w),
            \<lparr>op_mode = TEE_MODE_DECRYPT, op_key = Some secret,
             op_iv = Some (take AES_IV_SIZE (iv sess)), op_fed = []\<rparr>) # operations w\<rparr>)"
  using assms
  by (simp add: init_decryption_def TEE_AllocateOperation_def TEE_SetOperationKey_def
      TEE_CipherInit_def Let_def)

lemma encrypt_chunk_first_fresh:
  assumes "alloc_object_res env = TEE_SUCCESS" "populate_res env = TEE_SUCCESS"
    and "alloc_op_res env = TEE_SUCCESS" "set_key_res env = TEE_SUCCESS"
    and "\<not> initialized sess"
  shows "encrypt_chunk_first env sess w =
     Some (TEE_SUCCESS,
       sess\<lparr>enc_op := fresh_handle (operations w), key_handle := fresh_handle (transient w),
            iv := random_source env (Suc (rng w)) AES_IV_SIZE, initialized := True,
            total_enc_time_us := 0, total_bytes := 0\<rparr>,
       w\<lparr>transient := (fresh_handle (transient w), Some (random_source env (rng w) AES_KEY_SIZE)) # transient w,
         operations := (fresh_handle (operations w),
            \<lparr>op_mode = TEE_MODE_ENCRYPT, op_key = Some (random_source env (rng w) AES_KEY_SIZE),
             op_iv = Some (take AES_IV_SIZE (random_source env (Suc (rng w)) AES_IV_SIZE)), op_fed = []\<rparr>) # operations w,
         rng := Suc (Suc (rng w))\<rparr>)"
  using assms
  by (simp add: encrypt_chunk_first_def init_crypto_key_ok
      init_encryption_ok [where secret = "random_source env (rng w) AES_KEY_SIZE"] fresh_handle_not_null)

lemma encrypt_chunk_first_again:
  assumes "alloc_op_res env = TEE_SUCCESS" "set_key_res env = TEE_SUCCESS"
    and "initialized sess"
    and "key_handle sess \<noteq> TEE_HANDLE_NULL" "map_of (transient w) (key_handle sess) = Some (Some secret)"
  shows "encrypt_chunk_first env sess w =
     Some (TEE_SUCCESS,
       sess\<lparr>enc_op := fresh_handle (operations w), total_enc_time_us := 0, total_bytes := 0\<rparr>,
       w\<lparr>operations := (fresh_handle (operations w),
            \<lparr>op_mode = TEE_MODE_ENCRYPT, op_key = Some secret,
             op_iv = Some (take AES_IV_SIZE (iv sess)), op_fed = []\<rparr>) # operations w\<rparr>)"
  using assms
  by (simp add: encrypt_chunk_first_def init_encryption_ok [where secret = secret])

lemma world_neq_by_operations: "operations w' = x # operations w \<Longrightarrow> w' \<noteq> w"
  by auto



lemma TEE_AllocateOperation_keeps:
  "TEE_AllocateOperation v m w = (r, h, w') \<Longrightarrow> transient w' = transient w \<and> rng w' = rng w"
  by (auto simp: TEE_AllocateOperation_def Let_def split: if_splits)

lemma TEE_SetOperationKey_keeps:
  "TEE_SetOperationKey v operation k w = Some (r, w') \<Longrightarrow> transient w' = transient w \<and> rng w' = rng w"
  by (auto simp: TEE_SetOperationKey_def split: option.splits if_splits)

lemma TEE_FreeOperation_keeps:
  "TEE_FreeOperation operation w = Some w' \<Longrightarrow> transient w' = transient w \<and> rng w' = rng w"
  by (auto simp: TEE_FreeOperation_def split: option.splits if_splits)

lemma TEE_CipherInit_keeps:
  "TEE_CipherInit operation IV w = Some w' \<Longrightarrow> transient w' = transient w \<and> rng w' = rng w"
  by (auto simp: TEE_CipherInit_def split: option.splits)

lemma TEE_CipherUpdate_keeps:
  "TEE_CipherUpdate ciph v operation src n w = Some (r, out, w') \<Longrightarrow> transient w' = transient w \<and> rng w' = rng w"
  by (auto simp: TEE_CipherUpdate_def Let_def split: option.splits if_splits)

lemma init_encryption_keeps:
  assumes "init_encryption env sess w = Some (r, sess', w')"
  shows "transient w' = transient w \<and> rng w' = rng w \<and> key_handle sess' = key_handle sess
    \<and> iv sess' = iv sess \<and> initialized sess' = initialized sess"
  using assms
  by (auto simp: init_encryption_def Let_def split: prod.splits option.splits if_splits
      dest!: TEE_AllocateOperation_keeps TEE_SetOperationKey_keeps TEE_FreeOperation_keeps TEE_CipherInit_keeps)

lemma init_decryption_keeps:
  assumes "init_decryption env sess w = Some (r, sess', w')"
  shows "transient w' = transient w \<and> rng w' = rng w \<and> key_handle sess' = key_handle sess
    \<and> iv sess' = iv sess \<and> initialized sess' = initialized sess"
  using assms
  by (auto simp: init_decryption_def Let_def split: prod.splits option.splits if_splits
      dest!: TEE_AllocateOperation_keeps TEE_SetOperationKey_keeps TEE_FreeOperation_keeps TEE_CipherInit_keeps)

lemma encrypt_chunk_first_keeps:
  assumes "encrypt_chunk_first env sess w = Some (r, sess', w')" "initialized sess"
  shows "transient w' = transient w \<and> rng w' = rng w \<and> key_handle sess' = key_handle sess
    \<and> iv sess' = iv sess \<and> initialized sess'"
  using assms
  by (auto simp: encrypt_chunk_first_def split: option.splits if_splits dest!: init_encryption_keeps)

lemma decrypt_chunk_first_keeps:
  assumes "decrypt_chunk_first env sess w = Some (r, sess', w')"
  shows "transient w' = transient w \<and> rng w' = rng w \<and> key_handle sess' = key_handle sess
    \<and> iv sess' = iv sess \<and> initialized sess' = initialized sess"
  using assms
  by (auto simp: decrypt_chunk_first_def split: option.splits if_splits dest!: init_decryption_keeps)

lemma encrypt_chunk_keeps:
  assumes "encrypt_chunk env pt params sess w = Some (r, ps, sess', w')" "initialized sess"
  shows "transient w' = transient w \<and> rng w' = rng w \<and> key_handle sess' = key_handle sess
    \<and> iv sess' = iv sess \<and> initialized sess'"
  using assms
  by (auto simp: encrypt_chunk_def Let_def split: option.splits if_splits
      dest!: encrypt_chunk_first_keeps TEE_CipherUpdate_keeps)

lemma decrypt_chunk_keeps:
  assumes "decrypt_chunk env pt params sess w = Some (r, ps, sess', w')"
  shows "transient w' = transient w \<and> rng w' = rng w \<and> key_handle sess' = key_handle sess
    \<and> iv sess' = iv sess \<and> initialized sess' = initialized sess"
  using assms
  by (auto simp: decrypt_chunk_def Let_def split: option.splits if_splits
      dest!: decrypt_chunk_first_keeps TEE_CipherUpdate_keeps)

lemma reset_session_keeps:
  assumes "reset_session sess w = Some (r, sess', w')"
  shows "transient w' = transient w \<and> rng w' = rng w \<and> key_handle sess' = key_handle sess
    \<and> iv sess' = iv sess \<and> initialized sess' = initialized sess"
  using assms
  by (auto simp: reset_session_def split: option.splits if_splits dest!: TEE_FreeOperation_keeps)

lemma invoke_keeps:
  assumes "TA_InvokeCommandEntryPoint_crypto env sess command pt params w = Some (r, ps, sess', w')"
    and "initialized sess"
  shows "transient w' = transient w \<and> rng w' = rng w \<and> key_handle sess' = key_handle sess
    \<and> iv sess' = iv sess \<and> initialized sess'"
  using assms
  by (auto simp: TA_InvokeCommandEntryPoint_crypto_def split: if_splits option.splits prod.splits
      dest!: encrypt_chunk_keeps decrypt_chunk_keeps reset_session_keeps)




lemma init_crypto_key_draws:
  assumes "init_crypto_key env sess w = Some (r, sess', w')"
  shows "initialized sess' = initialized sess \<and>
    (r = TEE_SUCCESS \<longrightarrow>
       key_handle sess' \<noteq> TEE_HANDLE_NULL
     \<and> map_of (transient w') (key_handle sess') = Some (Some (random_source env (rng w) AES_KEY_SIZE))
     \<and> iv sess' = random_source env (Suc (rng w)) AES_IV_SIZE \<and> rng w' = rng w + 2)"
  using assms
  by (auto simp: init_crypto_key_def TEE_GenerateRandom_def TEE_AllocateTransientObject_def
      TEE_PopulateTransientObject_def TEE_FreeTransientObject_def Let_def fresh_handle_unused
      fresh_handle_not_null
      split: option.splits if_splits)

lemma encrypt_chunk_first_initializes:
  assumes "encrypt_chunk_first env sess w = Some (r, sess', w')" "\<not> initialized sess" "initialized sess'"
  shows "key_handle sess' \<noteq> TEE_HANDLE_NULL
     \<and> map_of (transient w') (key_handle sess') = Some (Some (random_source env (rng w) AES_KEY_SIZE))
     \<and> iv sess' = random_source env (Suc (rng w)) AES_IV_SIZE \<and> rng w' = rng w + 2"
  using assms
  by (auto simp: encrypt_chunk_first_def split: option.splits if_splits
      dest!: init_crypto_key_draws init_encryption_keeps)

lemma encrypt_chunk_initializes:
  assumes "encrypt_chunk env pt params sess w = Some (r, ps, sess', w')" "\<not> initialized sess" "initialized sess'"
  shows "value_a (p2 params) \<noteq> 0 \<and> key_handle sess' \<noteq> TEE_HANDLE_NULL
     \<and> map_of (transient w') (key_handle sess') = Some (Some (random_source env (rng w) AES_KEY_SIZE))
     \<and> iv sess' = random_source env (Suc (rng w)) AES_IV_SIZE \<and> rng w' = rng w + 2"
  using assms
  by (auto simp: encrypt_chunk_def Let_def split: option.splits if_splits
      dest!: encrypt_chunk_first_initializes TEE_CipherUpdate_keeps)

lemma invoke_initializes:
  assumes "TA_InvokeCommandEntryPoint_crypto env sess command pt params w = Some (r, ps, sess', w')"
    and "\<not> initialized sess" "initialized sess'"
  shows "command = TA_SECURE_STORAGE_CMD_ENCRYPT_CHUNK \<and> value_a (p2 params) \<noteq> 0
     \<and> key_handle sess' \<noteq> TEE_HANDLE_NULL
     \<and> map_of (transient w') (key_handle sess') = Some (Some (random_source env (rng w) AES_KEY_SIZE))
     \<and> iv sess' = random_source env (Suc (rng w)) AES_IV_SIZE \<and> rng w' = rng w + 2"
  using assms
  by (auto simp: TA_InvokeCommandEntryPoint_crypto_def split: if_splits option.splits prod.splits
      dest!: encrypt_chunk_initializes decrypt_chunk_keeps reset_session_keeps)

lemma encrypt_chunk_first_draws:
  assumes "encrypt_chunk_first env sess w = Some (r, sess', w')" "rng w' \<noteq> rng w"
  shows "\<not> initialized sess"
  using assms encrypt_chunk_first_keeps by blast

lemma encrypt_chunk_draws:
  assumes "encrypt_chunk env pt params sess w = Some (r, ps, sess', w')" "rng w' \<noteq> rng w"
  shows "\<not> initialized sess \<and> value_a (p2 params) \<noteq> 0"
  using assms
  by (auto simp: encrypt_chunk_def Let_def split: option.splits if_splits
      dest!: encrypt_chunk_first_keeps TEE_CipherUpdate_keeps)

lemma invoke_draws:
  assumes "TA_InvokeCommandEntryPoint_crypto env sess command pt params w = Some (r, ps, sess', w')"
    and "rng w' \<noteq> rng w"
  shows "command = TA_SECURE_STORAGE_CMD_ENCRYPT_CHUNK \<and> value_a (p2 params) \<noteq> 0 \<and> \<not> initialized sess"
  using assms
  by (auto simp: TA_InvokeCommandEntryPoint_crypto_def split: if_splits option.splits prod.splits
      dest!: encrypt_chunk_draws decrypt_chunk_keeps reset_session_keeps)



lemma TEE_CipherUpdate_head:
  assumes "operations w = (h, opn) # rest" "op_key opn = Some k" "op_iv opn = Some i"
  shows "\<exists>r out w' opn'. TEE_CipherUpdate ciph v h src n w = Some (r, out, w')
     \<and> operations w' = (h, opn') # rest \<and> op_mode opn' = op_mode opn \<and> op_key opn' = Some k \<and> op_iv opn' = Some i
     \<and> transient w' = transient w \<and> rng w' = rng w"
  using assms by (simp add: TEE_CipherUpdate_def Let_def)

lemma encrypt_chunk_stream_start:
  assumes "memref_size (p0 params) \<le> CHUNK_SIZE" "value_a (p2 params) \<noteq> 0"
    and "alloc_op_res env = TEE_SUCCESS" "set_key_res env = TEE_SUCCESS"
    and "initialized sess"
    and "key_handle sess \<noteq> TEE_HANDLE_NULL" "map_of (transient w) (key_handle sess) = Some (Some secret)"
  shows "\<exists>r ps sess' w' opn. encrypt_chunk env crypt_chunk_param_types params sess w = Some (r, ps, sess', w')
     \<and> enc_op sess' = fresh_handle (operations w)
     \<and> map_of (operations w') (enc_op sess') = Some opn
     \<and> op_mode opn = TEE_MODE_ENCRYPT \<and> op_key opn = Some secret \<and> op_iv opn = Some (take AES_IV_SIZE (iv sess))"
proof -
  define h where "h = fresh_handle (operations w)"
  define opn where "opn = \<lparr>op_mode = TEE_MODE_ENCRYPT, op_key = Some secret,
             op_iv = Some (take AES_IV_SIZE (iv sess)), op_fed = []\<rparr>"
  define s1 where "s1 = sess\<lparr>enc_op := h, total_enc_time_us := 0, total_bytes := 0\<rparr>"
  define w1 where "w1 = w\<lparr>operations := (h, opn) # operations w\<rparr>"
  have first: "encrypt_chunk_first env sess w = Some (TEE_SUCCESS, s1, w1)"
    using assms by (simp add: encrypt_chunk_first_again [where secret = secret] h_def opn_def s1_def w1_def)
  have "\<exists>r out w2 opn'. TEE_CipherUpdate (cipher env) (update_res env) h
        (take (memref_size (p0 params)) (memref_buffer (p0 params))) (memref_size (p1 params)) w1 = Some (r, out, w2)
     \<and> operations w2 = (h, opn') # operations w \<and> op_mode opn' = op_mode opn \<and> op_key opn' = Some secret
     \<and> op_iv opn' = Some (take AES_IV_SIZE (iv sess)) \<and> transient w2 = transient w1 \<and> rng w2 = rng w1"
    by (rule TEE_CipherUpdate_head) (simp_all add: w1_def opn_def)
  then obtain r out w2 opn' where upd:
    "TEE_CipherUpdate (cipher env) (update_res env) h (take (memref_size (p0 params)) (memref_buffer (p0 params)))
        (memref_size (p1 params)) w1 = Some (r, out, w2)"
    "operations w2 = (h, opn') # operations w" "op_mode opn' = op_mode opn" "op_key opn' = Some secret"
    "op_iv opn' = Some (take AES_IV_SIZE (iv sess))"
    by blast
  show ?thesis
    using assms(1,2) first upd
    by (auto simp add: encrypt_chunk_def crypt_chunk_param_types_def Let_def s1_def w1_def h_def opn_def)
qed

lemma decrypt_chunk_stream_start:
  assumes "memref_size (p0 params) \<le> CHUNK_SIZE" "value_a (p2 params) \<noteq> 0"
    and "alloc_op_res env = TEE_SUCCESS" "set_key_res env = TEE_SUCCESS"
    and "initialized sess"
    and "key_handle sess \<noteq> TEE_HANDLE_NULL" "map_of (transient w) (key_handle sess) = Some (Some secret)"
  shows "\<exists>r ps sess' w' opn. decrypt_chunk env crypt_chunk_param_types params sess w = Some (r, ps, sess', w')
     \<and> dec_op sess' = fresh_handle (operations w)
     \<and> map_of (operations w') (dec_op sess') = Some opn
     \<and> op_mode opn = TEE_MODE_DECRYPT \<and> op_key opn = Some secret \<and> op_iv opn = Some (take AES_IV_SIZE (iv sess))"
proof -
  define h where "h = fresh_handle (operations w)"
  define opn where "opn = \<lparr>op_mode = TEE_MODE_DECRYPT, op_key = Some secret,
             op_iv = Some (take AES_IV_SIZE (iv sess)), op_fed = []\<rparr>"
  define s1 where "s1 = sess\<lparr>dec_op := h, total_dec_time_us := 0\<rparr>"
  define w1 where "w1 = w\<lparr>operations := (h, opn) # operations w\<rparr>"
  have first: "decrypt_chunk_first env sess w = Some (TEE_SUCCESS, s1, w1)"
    using assms by (simp add: decrypt_chunk_first_def init_decryption_ok [where secret = secret] h_def opn_def s1_def w1_def)
  have "\<exists>r out w2 opn'. TEE_CipherUpdate (cipher env) (update_res env) h
        (take (memref_size (p0 params)) (memref_buffer (p0 params))) (memref_size (p1 params)) w1 = Some (r, out, w2)
     \<and> operations w2 = (h, opn') # operations w \<and> op_mode opn' = op_mode opn \<and> op_key opn' = Some secret
     \<and> op_iv opn' = Some (take AES_IV_SIZE (iv sess)) \<and> transient w2 = transient w1 \<and> rng w2 = rng w1"
    by (rule TEE_CipherUpdate_head) (simp_all add: w1_def opn_def)
  then obtain r out w2 opn' where upd:
    "TEE_CipherUpdate (cipher env) (update_res env) h (take (memref_size (p0 params)) (memref_buffer (p0 params)))
        (memref_size (p1 params)) w1 = Some (r, out, w2)"
    "operations w2 = (h, opn') # operations w" "op_mode opn' = op_mode opn" "op_key opn' = Some secret"
    "op_iv opn' = Some (take AES_IV_SIZE (iv sess))"
    by blast
  show ?thesis
    using assms(1,2) first upd
    by (auto simp add: decrypt_chunk_def crypt_chunk_param_types_def Let_def s1_def w1_def h_def opn_def)
qed

lemma encrypt_chunk_first_use:
  assumes "memref_size (p0 params) \<le> CHUNK_SIZE" "value_a (p2 params) \<noteq> 0"
    and "alloc_object_res env = TEE_SUCCESS" "populate_res env = TEE_SUCCESS"
    and "alloc_op_res env = TEE_SUCCESS" "set_key_res env = TEE_SUCCESS"
    and "\<not> initialized sess"
  shows "\<exists>r ps sess' w'. encrypt_chunk env crypt_chunk_param_types params sess w = Some (r, ps, sess', w')
     \<and> initialized sess'"
proof -
  define h where "h = fresh_handle (operations w)"
  define opn where "opn = \<lparr>op_mode = TEE_MODE_ENCRYPT, op_key = Some (random_source env (rng w) AES_KEY_SIZE),
             op_iv = Some (take AES_IV_SIZE (random_source env (Suc (rng w)) AES_IV_SIZE)), op_fed = []\<rparr>"
  define s1 where "s1 = sess\<lparr>enc_op := h, key_handle := fresh_handle (transient w),
            iv := random_source env (Suc (rng w)) AES_IV_SIZE, initialized := True,
            total_enc_time_us := 0, total_bytes := 0\<rparr>"
  define w1 where "w1 = w\<lparr>transient := (fresh_handle (transient w), Some (random_source env (rng w) AES_KEY_SIZE)) # transient w,
         operations := (h, opn) # operations w, rng := Suc (Suc (rng w))\<rparr>"
  have first: "encrypt_chunk_first env sess w = Some (TEE_SUCCESS, s1, w1)"
    using assms by (simp add: encrypt_chunk_first_fresh h_def opn_def s1_def w1_def)
  have "\<exists>r out w2 opn'. TEE_CipherUpdate (cipher env) (update_res env) h
        (take (memref_size (p0 params)) (memref_buffer (p0 params))) (memref_size (p1 params)) w1 = Some (r, out, w2)
     \<and> operations w2 = (h, opn') # operations w \<and> op_mode opn' = op_mode opn
     \<and> op_key opn' = Some (random_source env (rng w) AES_KEY_SIZE)
     \<and> op_iv opn' = Some (take AES_IV_SIZE (random_source env (Suc (rng w)) AES_IV_SIZE))
     \<and> transient w2 = transient w1 \<and> rng w2 = rng w1"
    by (rule TEE_CipherUpdate_head) (simp_all add: w1_def opn_def)
  then obtain r out w2 where upd:
    "TEE_CipherUpdate (cipher env) (update_res env) h (take (memref_size (p0 params)) (memref_buffer (p0 params)))
        (memref_size (p1 params)) w1 = Some (r, out, w2)"
    by blast
  show ?thesis
    using assms(1,2) first upd
    by (auto simp add: encrypt_chunk_def crypt_chunk_param_types_def Let_def s1_def)
qed




lemma fresh_handle_map: "fresh_handle (map (\<lambda>(h, v). (h, f v)) tab) = fresh_handle tab"
proof -
  have "map fst (map (\<lambda>(h, v). (h, f v)) tab) = map fst tab" by (induction tab) auto
  then show ?thesis unfolding fresh_handle_def by (simp only:)
qed

lemma map_of_map_val: "map_of (map (\<lambda>(h, v). (h, f v)) tab) k = map_option f (map_of tab k)"
  by (induction tab) auto

lemma map_val_update:
  "map (\<lambda>(h, v). (h, f v)) (AList.update k v tab) = AList.update k (f v) (map (\<lambda>(h, v). (h, f v)) tab)"
  by (induction tab) auto

lemma map_val_delete:
  "map (\<lambda>(h, v). (h, f v)) (AList.delete k tab) = AList.delete k (map (\<lambda>(h, v). (h, f v)) tab)"
  by (induction tab) auto

lemma erase_key_simps: "erase_key None = None" "erase_key (Some k) = Some []"
  by (simp_all add: erase_key_def)

lemma erase_op_simps:
  "op_mode (erase_op opn) = op_mode opn"
  "op_fed (erase_op opn) = op_fed opn"
  "op_key (erase_op opn) = erase_key (op_key opn)"
  "op_iv (erase_op opn) = erase_key (op_iv opn)"
  "erase_op (opn\<lparr>op_key := k\<rparr>) = (erase_op opn)\<lparr>op_key := erase_key k\<rparr>"
  "erase_op (opn\<lparr>op_iv := i\<rparr>) = (erase_op opn)\<lparr>op_iv := erase_key i\<rparr>"
  "erase_op (opn\<lparr>op_fed := fed\<rparr>) = (erase_op opn)\<lparr>op_fed := fed\<rparr>"
  "erase_op \<lparr>op_mode = m, op_key = k, op_iv = i, op_fed = fed\<rparr> =
     \<lparr>op_mode = m, op_key = erase_key k, op_iv = erase_key i, op_fed = fed\<rparr>"
  by (simp_all add: erase_op_def)

lemma erase_world_simps:
  "transient (erase_world w) = map (\<lambda>(h, k). (h, erase_key k)) (transient w)"
  "operations (erase_world w) = map (\<lambda>(h, opn). (h, erase_op opn)) (operations w)"
  "rng (erase_world w) = rng w"
  "erase_world (w\<lparr>operations := ops\<rparr>) = (erase_world w)\<lparr>operations := map (\<lambda>(h, opn). (h, erase_op opn)) ops\<rparr>"
  "erase_world (w\<lparr>transient := ts\<rparr>) = (erase_world w)\<lparr>transient := map (\<lambda>(h, k). (h, erase_key k)) ts\<rparr>"
  "erase_world (w\<lparr>rng := n\<rparr>) = (erase_world w)\<lparr>rng := n\<rparr>"
  by (simp_all add: erase_world_def)

lemmas erase_simps = erase_world_simps erase_op_simps erase_key_simps map_of_map_val map_val_update
  map_val_delete fresh_handle_map

lemma TEE_AllocateOperation_erase:
  "TEE_AllocateOperation v m (erase_world w) =
     (case TEE_AllocateOperation v m w of (r, h, w') \<Rightarrow> (r, h, erase_world w'))"
  by (simp add: TEE_AllocateOperation_def Let_def erase_simps)

lemma TEE_SetOperationKey_erase:
  "TEE_SetOperationKey v operation k (erase_world w) =
     map_option (\<lambda>(r, w'). (r, erase_world w')) (TEE_SetOperationKey v operation k w)"
  by (cases "map_of (operations w) operation"; cases "map_of (transient w) k"; cases "the (map_of (transient w) k)")
     (simp_all add: TEE_SetOperationKey_def erase_simps)

lemma TEE_FreeOperation_erase:
  "TEE_FreeOperation operation (erase_world w) = map_option erase_world (TEE_FreeOperation operation w)"
  by (cases "map_of (operations w) operation") (simp_all add: TEE_FreeOperation_def erase_simps)

lemma TEE_CipherInit_erase:
  "TEE_CipherInit operation [] (erase_world w) = map_option erase_world (TEE_CipherInit operation IV w)"
proof (cases "map_of (operations w) operation")
  case None
  then show ?thesis by (simp add: TEE_CipherInit_def erase_simps)
next
  case (Some opn)
  then show ?thesis by (cases "op_key opn") (simp_all add: TEE_CipherInit_def erase_simps)
qed

lemma TEE_CipherUpdate_erase:
  assumes "key_blind ciph"
  shows "TEE_CipherUpdate ciph v operation src n (erase_world w) =
     map_option (\<lambda>(r, out, w'). (r, out, erase_world w')) (TEE_CipherUpdate ciph v operation src n w)"
proof (cases "map_of (operations w) operation")
  case None
  then show ?thesis by (simp add: TEE_CipherUpdate_def erase_simps)
next
  case (Some opn)
  define c0 where "c0 = (\<lambda>m fed x. ciph m [] [] fed x)"
  have blind: "\<And>m k i fed x. ciph m k i fed x = c0 m fed x"
    using assms unfolding key_blind_def c0_def by blast
  from Some show ?thesis
    by (cases "op_key opn"; cases "op_iv opn")
       (simp_all add: TEE_CipherUpdate_def erase_simps Let_def blind)
qed

lemma TEE_AllocateTransientObject_erase:
  "TEE_AllocateTransientObject v (erase_world w) =
     (case TEE_AllocateTransientObject v w of (r, h, w') \<Rightarrow> (r, h, erase_world w'))"
  by (simp add: TEE_AllocateTransientObject_def Let_def erase_simps)

lemma TEE_PopulateTransientObject_erase:
  "TEE_PopulateTransientObject v h [] (erase_world w) =
     map_option (\<lambda>(r, w'). (r, erase_world w')) (TEE_PopulateTransientObject v h secret w)"
  by (cases "map_of (transient w) h"; cases "the (map_of (transient w) h)")
     (simp_all add: TEE_PopulateTransientObject_def erase_simps)

lemma TEE_FreeTransientObject_erase:
  "TEE_FreeTransientObject h (erase_world w) = map_option erase_world (TEE_FreeTransientObject h w)"
  by (cases "map_of (transient w) h") (simp_all add: TEE_FreeTransientObject_def erase_simps)


lemma erase_session_simps:
  "enc_op (erase_session s) = enc_op s" "dec_op (erase_session s) = dec_op s"
  "key_handle (erase_session s) = key_handle s" "iv (erase_session s) = []"
  "initialized (erase_session s) = initialized s"
  "total_enc_time_us (erase_session s) = total_enc_time_us s"
  "total_dec_time_us (erase_session s) = total_dec_time_us s"
  "total_bytes (erase_session s) = total_bytes s"
  "erase_session (s\<lparr>enc_op := h\<rparr>) = (erase_session s)\<lparr>enc_op := h\<rparr>"
  "erase_session (s\<lparr>dec_op := h\<rparr>) = (erase_session s)\<lparr>dec_op := h\<rparr>"
  "erase_session (s\<lparr>key_handle := h\<rparr>) = (erase_session s)\<lparr>key_handle := h\<rparr>"
  "erase_session (s\<lparr>iv := i\<rparr>) = erase_session s"
  "erase_session (s\<lparr>initialized := b\<rparr>) = (erase_session s)\<lparr>initialized := b\<rparr>"
  "erase_session (s\<lparr>total_enc_time_us := t\<rparr>) = (erase_session s)\<lparr>total_enc_time_us := t\<rparr>"
  "erase_session (s\<lparr>total_dec_time_us := t\<rparr>) = (erase_session s)\<lparr>total_dec_time_us := t\<rparr>"
  "erase_session (s\<lparr>total_bytes := n\<rparr>) = (erase_session s)\<lparr>total_bytes := n\<rparr>"
  by (simp_all add: erase_session_def)

lemma erase_env_simps:
  "random_source (erase_env env) = (\<lambda>_ _. [])" "cipher (erase_env env) = cipher env"
  "alloc_object_res (erase_env env) = alloc_object_res env"
  "populate_res (erase_env env) = populate_res env"
  "alloc_op_res (erase_env env) = alloc_op_res env"
  "set_key_res (erase_env env) = set_key_res env"
  "update_res (erase_env env) = update_res env"
  "start_time (erase_env env) = start_time env" "end_time (erase_env env) = end_time env"
  by (simp_all add: erase_env_def)

lemma init_encryption_erase:
  "init_encryption (erase_env env) (erase_session sess) (erase_world w) =
     map_option (\<lambda>(r, s, w'). (r, erase_session s, erase_world w')) (init_encryption env sess w)"
  by (simp add: init_encryption_def Let_def erase_session_simps erase_env_simps
      TEE_AllocateOperation_erase TEE_SetOperationKey_erase TEE_FreeOperation_erase
      TEE_CipherInit_erase [where IV = "take AES_IV_SIZE (iv sess)"]
      split: prod.splits option.splits)

lemma init_decryption_erase:
  "init_decryption (erase_env env) (erase_session sess) (erase_world w) =
     map_option (\<lambda>(r, s, w'). (r, erase_session s, erase_world w')) (init_decryption env sess w)"
  by (simp add: init_decryption_def Let_def erase_session_simps erase_env_simps
      TEE_AllocateOperation_erase TEE_SetOperationKey_erase TEE_FreeOperation_erase
      TEE_CipherInit_erase [where IV = "take AES_IV_SIZE (iv sess)"]
      split: prod.splits option.splits)

lemma TEE_GenerateRandom_erase:
  "TEE_GenerateRandom (\<lambda>_ _. []) n (erase_world w) =
     (case TEE_GenerateRandom src n w of (bs, w') \<Rightarrow> ([], erase_world w'))"
  by (simp add: TEE_GenerateRandom_def erase_world_def)

lemma init_crypto_key_erase:
  "init_crypto_key (erase_env env) (erase_session sess) (erase_world w) =
     map_option (\<lambda>(r, s, w'). (r, erase_session s, erase_world w')) (init_crypto_key env sess w)"
proof -
  obtain kd w1 where g1: "TEE_GenerateRandom (random_source env) AES_KEY_SIZE w = (kd, w1)"
    by (cases "TEE_GenerateRandom (random_source env) AES_KEY_SIZE w")
  obtain r h w2 where al: "TEE_AllocateTransientObject (alloc_object_res env) w1 = (r, h, w2)"
    by (cases "TEE_AllocateTransientObject (alloc_object_res env) w1")
  have g1e: "TEE_GenerateRandom (\<lambda>_ _. []) AES_KEY_SIZE (erase_world w) = ([], erase_world w1)"
    using g1 by (simp add: TEE_GenerateRandom_erase [where src = "random_source env"])
  have ale: "TEE_AllocateTransientObject (alloc_object_res env) (erase_world w1) = (r, h, erase_world w2)"
    using al by (simp add: TEE_AllocateTransientObject_erase)
  show ?thesis
  proof (cases "TEE_PopulateTransientObject (populate_res env) h kd w2")
    case None
    then show ?thesis
      using g1 g1e al ale TEE_PopulateTransientObject_erase [of "populate_res env" h w2 kd]
      by (simp add: init_crypto_key_def Let_def erase_session_simps erase_env_simps)
  next
    case (Some a)
    obtain r3 w3 where a: "a = (r3, w3)" by (cases a)
    obtain ivd w4 where g2: "TEE_GenerateRandom (random_source env) AES_IV_SIZE w3 = (ivd, w4)"
      by (cases "TEE_GenerateRandom (random_source env) AES_IV_SIZE w3")
    have g2e: "TEE_GenerateRandom (\<lambda>_ _. []) AES_IV_SIZE (erase_world w3) = ([], erase_world w4)"
      using g2 by (simp add: TEE_GenerateRandom_erase [where src = "random_source env"])
    show ?thesis
      using g1 g1e al ale Some a g2 g2e TEE_PopulateTransientObject_erase [of "populate_res env" h w2 kd]
      by (simp add: init_crypto_key_def Let_def erase_session_simps erase_env_simps
          TEE_FreeTransientObject_erase split: option.splits)
  qed
qed




lemmas erase_session_sel = erase_session_simps(1-8)
lemmas erase_session_fold = erase_session_simps(9-11,13-16) [symmetric]

lemma encrypt_chunk_first_erase:
  "encrypt_chunk_first (erase_env env) (erase_session sess) (erase_world w) =
     map_option (\<lambda>(r, s, w'). (r, erase_session s, erase_world w')) (encrypt_chunk_first env sess w)"
  by (simp add: encrypt_chunk_first_def erase_session_sel erase_session_fold init_crypto_key_erase init_encryption_erase
      split: option.splits)

lemma decrypt_chunk_first_erase:
  "decrypt_chunk_first (erase_env env) (erase_session sess) (erase_world w) =
     map_option (\<lambda>(r, s, w'). (r, erase_session s, erase_world w')) (decrypt_chunk_first env sess w)"
  by (simp add: decrypt_chunk_first_def erase_session_sel erase_session_fold init_decryption_erase
      split: option.splits)

lemma encrypt_chunk_erase:
  assumes "key_blind (cipher env)"
  shows "encrypt_chunk (erase_env env) param_types params (erase_session sess) (erase_world w) =
     map_option (\<lambda>(r, ps, s, w'). (r, ps, erase_session s, erase_world w'))
       (encrypt_chunk env param_types params sess w)"
  using assms
  by (simp add: encrypt_chunk_def Let_def erase_session_sel erase_session_fold erase_env_simps
      encrypt_chunk_first_erase TEE_CipherUpdate_erase split: option.splits)

lemma decrypt_chunk_erase:
  assumes "key_blind (cipher env)"
  shows "decrypt_chunk (erase_env env) param_types params (erase_session sess) (erase_world w) =
     map_option (\<lambda>(r, ps, s, w'). (r, ps, erase_session s, erase_world w'))
       (decrypt_chunk env param_types params sess w)"
  using assms
  by (simp add: decrypt_chunk_def Let_def erase_session_sel erase_session_fold erase_env_simps
      decrypt_chunk_first_erase TEE_CipherUpdate_erase split: option.splits)

lemma reset_session_erase:
  "reset_session (erase_session sess) (erase_world w) =
     map_option (\<lambda>(r, s, w'). (r, erase_session s, erase_world w')) (reset_session sess w)"
  by (simp add: reset_session_def erase_session_sel erase_session_fold TEE_FreeOperation_erase split: option.splits)

lemma finalize_operation_erase:
  "finalize_operation param_types params (erase_session sess) = finalize_operation param_types params sess"
  by (simp add: finalize_operation_def erase_session_sel erase_session_fold)

lemma invoke_erase:
  assumes "key_blind (cipher env)"
  shows "TA_InvokeCommandEntryPoint_crypto (erase_env env) (erase_session sess) command param_types params (erase_world w) =
     map_option (\<lambda>(r, ps, s, w'). (r, ps, erase_session s, erase_world w'))
       (TA_InvokeCommandEntryPoint_crypto env sess command param_types params w)"
  using assms
  by (simp add: TA_InvokeCommandEntryPoint_crypto_def encrypt_chunk_erase decrypt_chunk_erase
      reset_session_erase finalize_operation_erase split: option.splits prod.splits)

lemma run_commands_keeps:
  assumes "initialized sess" "run_commands cs sess w = Some (sess', w')"
  shows "initialized sess' \<and> key_handle sess' = key_handle sess \<and> iv sess' = iv sess
    \<and> transient w' = transient w \<and> rng w' = rng w"
  using assms
proof (induction cs arbitrary: sess w)
  case Nil
  then show ?case by simp
next
  case (Cons c cs)
  obtain env command param_types params where c: "c = (env, command, param_types, params)"
    by (cases c)
  from Cons.prems(2) c obtain res ps s1 w1 where
    step: "TA_InvokeCommandEntryPoint_crypto env sess command param_types params w = Some (res, ps, s1, w1)"
    and rest: "run_commands cs s1 w1 = Some (sess', w')"
    by (auto split: option.splits)
  from invoke_keeps [OF step Cons.prems(1)]
  have k1: "transient w1 = transient w" "rng w1 = rng w" "key_handle s1 = key_handle sess"
    "iv s1 = iv sess" "initialized s1" by simp_all
  from Cons.IH [OF k1(5) rest] k1 show ?case by simp
qed

lemma encrypt_chunk_first_sets_flag:
  assumes "encrypt_chunk_first env sess w = Some (r, sess', w')" "\<not> initialized sess"
    and "alloc_object_res env = TEE_SUCCESS" "populate_res env = TEE_SUCCESS"
  shows "initialized sess'"
  using assms
  by (auto simp: encrypt_chunk_first_def init_crypto_key_ok split: option.splits if_splits
      dest!: init_encryption_keeps)

lemma encrypt_chunk_draw_sets_flag:
  assumes "encrypt_chunk env pt params sess w = Some (r, ps, sess', w')" "rng w' \<noteq> rng w"
    and "alloc_object_res env = TEE_SUCCESS" "populate_res env = TEE_SUCCESS"
  shows "initialized sess'"
proof (cases "initialized sess")
  case True
  with assms(1,2) encrypt_chunk_keeps show ?thesis by blast
next
  case False
  with assms show ?thesis
    by (auto simp: encrypt_chunk_def Let_def split: option.splits if_splits
        dest!: encrypt_chunk_first_sets_flag TEE_CipherUpdate_keeps)
qed

lemma invoke_draw_sets_flag:
  assumes "TA_InvokeCommandEntryPoint_crypto env sess command pt params w = Some (r, ps, sess', w')"
    and "rng w' \<noteq> rng w"
    and "alloc_object_res env = TEE_SUCCESS" "populate_res env = TEE_SUCCESS"
  shows "initialized sess'"
proof -
  from invoke_draws [OF assms(1,2)] have "command = TA_SECURE_STORAGE_CMD_ENCRYPT_CHUNK" by simp
  with assms(1) have "encrypt_chunk env pt params sess w = Some (r, ps, sess', w')"
    by (simp add: TA_InvokeCommandEntryPoint_crypto_def)
  from encrypt_chunk_draw_sets_flag [OF this assms(2-4)] show ?thesis .
qed

lemma run_commands_draws_once:
  assumes "list_all key_setup_granted cs" "\<not> initialized sess"
    and "run_commands cs sess w = Some (sess', w')"
  shows "if initialized sess'
         then rng w' = rng w + 2
            \<and> (\<exists>c \<in> set cs.
                 map_of (transient w') (key_handle sess')
                   = Some (Some (random_source (fst c) (rng w) AES_KEY_SIZE))
               \<and> iv sess' = random_source (fst c) (Suc (rng w)) AES_IV_SIZE)
         else rng w' = rng w"
  using assms
proof (induction cs arbitrary: sess w)
  case Nil
  then show ?case by simp
next
  case (Cons c cs)
  obtain env command param_types params where c: "c = (env, command, param_types, params)"
    by (cases c)
  from Cons.prems(3) c obtain res ps s1 w1 where
    step: "TA_InvokeCommandEntryPoint_crypto env sess command param_types params w = Some (res, ps, s1, w1)"
    and rest: "run_commands cs s1 w1 = Some (sess', w')"
    by (auto split: option.splits)
  from Cons.prems(1) have gc: "key_setup_granted c" and granted_rest: "list_all key_setup_granted cs"
    by simp_all
  from gc c have granted: "alloc_object_res env = TEE_SUCCESS" "populate_res env = TEE_SUCCESS"
    by (simp_all add: key_setup_granted_def)
  show ?case
  proof (cases "initialized s1")
    case True
    from invoke_initializes [OF step Cons.prems(2) True]
    have i1: "map_of (transient w1) (key_handle s1) = Some (Some (random_source env (rng w) AES_KEY_SIZE))"
      "iv s1 = random_source env (Suc (rng w)) AES_IV_SIZE" "rng w1 = rng w + 2" by simp_all
    from run_commands_keeps [OF True rest]
    have k: "initialized sess'" "key_handle sess' = key_handle s1" "iv sess' = iv s1"
      "transient w' = transient w1" "rng w' = rng w1" by simp_all
    from i1 k c show ?thesis by simp
  next
    case False
    have same: "rng w1 = rng w"
      using invoke_draw_sets_flag [OF step _ granted] False by blast
    from Cons.IH [OF granted_rest False rest] same show ?thesis
      by (auto split: if_splits)
  qed
qed

section \<open>Claims about the crypto application and the chunk bound\<close>

text \<open>
  C6 does not hold of the code. On a session as \<open>TA_OpenSessionEntryPoint\<close> leaves it,
  DECRYPT_CHUNK with \<open>is_first = 0\<close> and a 16-byte chunk does not return
  \<open>TEE_ERROR_BAD_STATE\<close>: the check of \<open>initialized\<close> sits inside the \<open>is_first\<close> block, so
  the command goes on to \<open>TEE_CipherUpdate\<close> with the null \<open>dec_op\<close>, which is a panic.
\<close>

theorem decrypt_chunk_continuation_before_init:
  "TA_OpenSessionEntryPoint_crypto True = (TEE_SUCCESS, Some new_session)
   \<and> decrypt_chunk plain_env crypt_chunk_param_types (crypt_params (replicate 16 0) 0)
        new_session empty_crypto = None"
  by (simp add: TA_OpenSessionEntryPoint_crypto_def new_session_def decrypt_chunk_def Let_def
      crypt_params_def memref_param_def value_param_def CHUNK_SIZE_def empty_crypto_def
      TEE_CipherUpdate_def)

text \<open>
  C7. Over the commands of the crypto application, as \<open>TA_InvokeCommandEntryPoint\<close>
  dispatches them:
  \<^item> on an initialized session every command that returns leaves \<open>initialized\<close> set and
    leaves the key handle, the IV, the key containers and the random generator as they
    were: no key and no IV is generated again;
  \<^item> a command that turns \<open>initialized\<close> from false to true is an ENCRYPT_CHUNK with
    \<open>is_first\<close> not 0; the key is then the first and the IV the second of the two values
    it drew; and a command that draws a random value at all is such a command on a
    session not yet initialized;
  \<^item> an ENCRYPT_CHUNK with \<open>is_first\<close> not 0 on a session not yet initialized, within
    the chunk bound and with the key and operation primitives granted, returns with
    \<open>initialized\<close> set;
  \<^item> on an initialized session holding a populated key, an ENCRYPT_CHUNK or
    DECRYPT_CHUNK with \<open>is_first\<close> not 0 (operation primitives granted) stores a handle
    that was not live before, on an operation of the matching mode that holds this key
    and the session's IV;
  \<^item> over any sequence of commands that returns: from an initialized session all of
    these are at the end as at the start; from a session not yet initialized, with the
    key-container primitives granted throughout, two values are drawn in all if the
    session ends initialized (the key and the IV, by one of the commands) and none
    otherwise: key and IV are generated once;
  \<^item> for a key-blind cipher, the command run on the state with all key material erased
    gives the same code and the same output parameters, and the erased final state: no
    key byte is written to an output parameter.
\<close>

theorem key_and_iv_lifecycle:
  "(initialized sess
      \<and> TA_InvokeCommandEntryPoint_crypto env sess command param_types params w
           = Some (r, ps, sess', w') \<longrightarrow>
        initialized sess' \<and> key_handle sess' = key_handle sess \<and> iv sess' = iv sess
      \<and> transient w' = transient w \<and> rng w' = rng w)
   \<and> (\<not> initialized sess \<and> initialized sess'
      \<and> TA_InvokeCommandEntryPoint_crypto env sess command param_types params w
           = Some (r, ps, sess', w') \<longrightarrow>
        command = TA_SECURE_STORAGE_CMD_ENCRYPT_CHUNK \<and> value_a (p2 params) \<noteq> 0
      \<and> key_handle sess' \<noteq> TEE_HANDLE_NULL
      \<and> map_of (transient w') (key_handle sess')
           = Some (Some (random_source env (rng w) AES_KEY_SIZE))
      \<and> iv sess' = random_source env (Suc (rng w)) AES_IV_SIZE
      \<and> rng w' = rng w + 2)
   \<and> (rng w' \<noteq> rng w
      \<and> TA_InvokeCommandEntryPoint_crypto env sess command param_types params w
           = Some (r, ps, sess', w') \<longrightarrow>
        command = TA_SECURE_STORAGE_CMD_ENCRYPT_CHUNK \<and> value_a (p2 params) \<noteq> 0
      \<and> \<not> initialized sess)
   \<and> (\<not> initialized sess \<and> memref_size (p0 params) \<le> CHUNK_SIZE \<and> value_a (p2 params) \<noteq> 0
      \<and> alloc_object_res env = TEE_SUCCESS \<and> populate_res env = TEE_SUCCESS
      \<and> alloc_op_res env = TEE_SUCCESS \<and> set_key_res env = TEE_SUCCESS \<longrightarrow>
        (\<exists>r1 ps1 s1 w1. encrypt_chunk env crypt_chunk_param_types params sess w
            = Some (r1, ps1, s1, w1) \<and> initialized s1))
   \<and> (initialized sess \<and> key_handle sess \<noteq> TEE_HANDLE_NULL
      \<and> map_of (transient w) (key_handle sess) = Some (Some secret)
      \<and> memref_size (p0 params) \<le> CHUNK_SIZE \<and> value_a (p2 params) \<noteq> 0
      \<and> alloc_op_res env = TEE_SUCCESS \<and> set_key_res env = TEE_SUCCESS \<longrightarrow>
        map_of (operations w) (fresh_handle (operations w)) = None
      \<and> (\<exists>r1 ps1 s1 w1 opn. encrypt_chunk env crypt_chunk_param_types params sess w
            = Some (r1, ps1, s1, w1)
          \<and> enc_op s1 = fresh_handle (operations w)
          \<and> map_of (operations w1) (enc_op s1) = Some opn
          \<and> op_mode opn = TEE_MODE_ENCRYPT \<and> op_key opn = Some secret
          \<and> op_iv opn = Some (take AES_IV_SIZE (iv sess)))
      \<and> (\<exists>r1 ps1 s1 w1 opn. decrypt_chunk env crypt_chunk_param_types params sess w
            = Some (r1, ps1, s1, w1)
          \<and> dec_op s1 = fresh_handle (operations w)
          \<and> map_of (operations w1) (dec_op s1) = Some opn
          \<and> op_mode opn = TEE_MODE_DECRYPT \<and> op_key opn = Some secret
          \<and> op_iv opn = Some (take AES_IV_SIZE (iv sess))))
   \<and> (initialized sess \<and> run_commands cs sess w = Some (sess', w') \<longrightarrow>
        initialized sess' \<and> key_handle sess' = key_handle sess \<and> iv sess' = iv sess
      \<and> transient w' = transient w \<and> rng w' = rng w)
   \<and> (\<not> initialized sess \<and> list_all key_setup_granted cs
      \<and> run_commands cs sess w = Some (sess', w') \<longrightarrow>
        (if initialized sess'
         then rng w' = rng w + 2
            \<and> (\<exists>c \<in> set cs.
                 map_of (transient w') (key_handle sess')
                   = Some (Some (random_source (fst c) (rng w) AES_KEY_SIZE))
               \<and> iv sess' = random_source (fst c) (Suc (rng w)) AES_IV_SIZE)
         else rng w' = rng w))
   \<and> (key_blind (cipher env) \<longrightarrow>
        TA_InvokeCommandEntryPoint_crypto (erase_env env) (erase_session sess) command
            param_types params (erase_world w)
          = map_option (\<lambda>(r1, ps1, s1, w1). (r1, ps1, erase_session s1, erase_world w1))
              (TA_InvokeCommandEntryPoint_crypto env sess command param_types params w))"
  (is "?keeps \<and> ?initializes \<and> ?draws \<and> ?first_use \<and> ?stream_start
         \<and> ?run_keeps \<and> ?run_draws \<and> ?erased")
proof (intro conjI)
  show ?keeps
    using invoke_keeps [of env sess command param_types params w r ps sess' w'] by blast
  show ?initializes
    using invoke_initializes [of env sess command param_types params w r ps sess' w'] by blast
  show ?draws
    using invoke_draws [of env sess command param_types params w r ps sess' w'] by blast
  show ?first_use
    using encrypt_chunk_first_use [of params env sess w] by blast
  show ?stream_start
    using encrypt_chunk_stream_start [of params env sess w secret]
      decrypt_chunk_stream_start [of params env sess w secret]
      fresh_handle_unused [of "operations w"]
    by blast
  show ?run_keeps
    using run_commands_keeps [of sess cs w sess' w'] by blast
  show ?run_draws
    using run_commands_draws_once [of cs sess w sess' w'] by blast
  show ?erased
    using invoke_erase [of env sess command param_types params w] by blast
qed

theorem key_and_iv_lifecycle_witness:
  "(\<exists>r ps s' w'.
      TA_InvokeCommandEntryPoint_crypto plain_env new_session TA_SECURE_STORAGE_CMD_ENCRYPT_CHUNK
          crypt_chunk_param_types (crypt_params (replicate 16 0) 1) empty_crypto
        = Some (r, ps, s', w')
    \<and> initialized s'
    \<and> map_of (transient w') (key_handle s')
         = Some (Some (random_source plain_env (rng empty_crypto) AES_KEY_SIZE))
    \<and> iv s' = random_source plain_env (Suc (rng empty_crypto)) AES_IV_SIZE
    \<and> rng w' = rng empty_crypto + 2)
   \<and> (\<exists>r ps s' w' opn.
      TA_InvokeCommandEntryPoint_crypto plain_env keyed_session TA_SECURE_STORAGE_CMD_ENCRYPT_CHUNK
          crypt_chunk_param_types (crypt_params (replicate 16 0) 1) keyed_crypto
        = Some (r, ps, s', w')
    \<and> enc_op s' = fresh_handle (operations keyed_crypto)
    \<and> map_of (operations w') (enc_op s') = Some opn
    \<and> op_key opn = Some (replicate 32 7)
    \<and> op_iv opn = Some (take AES_IV_SIZE (iv keyed_session))
    \<and> initialized s' \<and> key_handle s' = key_handle keyed_session \<and> iv s' = iv keyed_session
    \<and> transient w' = transient keyed_crypto \<and> rng w' = rng keyed_crypto)
   \<and> (\<exists>s' w'.
      run_commands
          [(plain_env, TA_SECURE_STORAGE_CMD_ENCRYPT_CHUNK, crypt_chunk_param_types,
              crypt_params (replicate 16 0) 1),
           (plain_env, TA_SECURE_STORAGE_CMD_DECRYPT_CHUNK, crypt_chunk_param_types,
              crypt_params (replicate 16 0) 1)]
          new_session empty_crypto
        = Some (s', w')
    \<and> initialized s' \<and> rng w' = rng empty_crypto + 2)
   \<and> TA_InvokeCommandEntryPoint_crypto (erase_env plain_env) (erase_session keyed_session)
          TA_SECURE_STORAGE_CMD_ENCRYPT_CHUNK crypt_chunk_param_types
          (crypt_params (replicate 16 0) 1) (erase_world keyed_crypto)
        = map_option (\<lambda>(r1, ps1, s1, w1). (r1, ps1, erase_session s1, erase_world w1))
            (TA_InvokeCommandEntryPoint_crypto plain_env keyed_session
               TA_SECURE_STORAGE_CMD_ENCRYPT_CHUNK crypt_chunk_param_types
               (crypt_params (replicate 16 0) 1) keyed_crypto)"
proof (intro conjI)
  let ?P = "crypt_params (replicate 16 0) 1"
  let ?E = TA_SECURE_STORAGE_CMD_ENCRYPT_CHUNK
  have enc: "\<And>sess w. TA_InvokeCommandEntryPoint_crypto plain_env sess ?E crypt_chunk_param_types ?P w
      = encrypt_chunk plain_env crypt_chunk_param_types ?P sess w"
    by (simp add: TA_InvokeCommandEntryPoint_crypto_def)
  have params: "memref_size (p0 ?P) \<le> CHUNK_SIZE" "value_a (p2 ?P) \<noteq> 0"
    by (simp_all add: crypt_params_def memref_param_def value_param_def CHUNK_SIZE_def)
  have env: "alloc_object_res plain_env = TEE_SUCCESS" "populate_res plain_env = TEE_SUCCESS"
    "alloc_op_res plain_env = TEE_SUCCESS" "set_key_res plain_env = TEE_SUCCESS"
    by (simp_all add: plain_env_def)
  have new: "\<not> initialized new_session" by (simp add: new_session_def)
  have keyed: "initialized keyed_session" "key_handle keyed_session \<noteq> TEE_HANDLE_NULL"
    "map_of (transient keyed_crypto) (key_handle keyed_session) = Some (Some (replicate 32 7))"
    by (simp_all add: keyed_session_def keyed_crypto_def TEE_HANDLE_NULL_def)
  have blind: "key_blind (cipher plain_env)" by (simp add: key_blind_def plain_env_def)

  from key_and_iv_lifecycle [where sess = new_session and env = plain_env and params = ?P
      and w = empty_crypto] new params env
  obtain r ps s' w' where run:
      "encrypt_chunk plain_env crypt_chunk_param_types ?P new_session empty_crypto = Some (r, ps, s', w')"
    and init: "initialized s'"
    by blast
  from key_and_iv_lifecycle [where sess = new_session and env = plain_env and params = ?P
      and w = empty_crypto and command = ?E and param_types = crypt_chunk_param_types
      and r = r and ps = ps and sess' = s' and w' = w'] new init run enc
  have first: "key_handle s' \<noteq> TEE_HANDLE_NULL
    \<and> map_of (transient w') (key_handle s')
         = Some (Some (random_source plain_env (rng empty_crypto) AES_KEY_SIZE))
    \<and> iv s' = random_source plain_env (Suc (rng empty_crypto)) AES_IV_SIZE
    \<and> rng w' = rng empty_crypto + 2"
    by simp
  with run init enc show "\<exists>r ps s' w'.
      TA_InvokeCommandEntryPoint_crypto plain_env new_session ?E crypt_chunk_param_types ?P empty_crypto
        = Some (r, ps, s', w')
    \<and> initialized s'
    \<and> map_of (transient w') (key_handle s')
         = Some (Some (random_source plain_env (rng empty_crypto) AES_KEY_SIZE))
    \<and> iv s' = random_source plain_env (Suc (rng empty_crypto)) AES_IV_SIZE
    \<and> rng w' = rng empty_crypto + 2"
    by simp

  let ?D = TA_SECURE_STORAGE_CMD_DECRYPT_CHUNK
  let ?cs = "[(plain_env, ?E, crypt_chunk_param_types, ?P), (plain_env, ?D, crypt_chunk_param_types, ?P)]"
  from key_and_iv_lifecycle [where sess = s' and env = plain_env and params = ?P
      and w = w' and secret = "random_source plain_env (rng empty_crypto) AES_KEY_SIZE"]
    init first params env
  obtain r3 ps3 s3 w3 where dec:
      "decrypt_chunk plain_env crypt_chunk_param_types ?P s' w' = Some (r3, ps3, s3, w3)"
    by blast
  have seq: "run_commands ?cs new_session empty_crypto = Some (s3, w3)"
    using run dec
    by (simp add: TA_InvokeCommandEntryPoint_crypto_def TA_SECURE_STORAGE_CMD_ENCRYPT_CHUNK_def
        TA_SECURE_STORAGE_CMD_DECRYPT_CHUNK_def)
  have granted: "list_all key_setup_granted ?cs"
    by (simp add: key_setup_granted_def plain_env_def)
  from key_and_iv_lifecycle [where sess = s' and w = w' and cs = "[(plain_env, ?D, crypt_chunk_param_types, ?P)]"
      and sess' = s3 and w' = w3] init dec
  have init3: "initialized s3"
    by (simp add: TA_InvokeCommandEntryPoint_crypto_def TA_SECURE_STORAGE_CMD_ENCRYPT_CHUNK_def
        TA_SECURE_STORAGE_CMD_DECRYPT_CHUNK_def)
  from key_and_iv_lifecycle [where sess = new_session and w = empty_crypto and cs = ?cs
      and sess' = s3 and w' = w3] new granted seq init3
  have "rng w3 = rng empty_crypto + 2" by simp
  with seq init3 show "\<exists>s' w'. run_commands ?cs new_session empty_crypto = Some (s', w')
    \<and> initialized s' \<and> rng w' = rng empty_crypto + 2"
    by blast

  from key_and_iv_lifecycle [where sess = keyed_session and env = plain_env and params = ?P
      and w = keyed_crypto and secret = "replicate 32 7"] keyed params env
  obtain r2 ps2 s2 w2 opn where run2:
      "encrypt_chunk plain_env crypt_chunk_param_types ?P keyed_session keyed_crypto = Some (r2, ps2, s2, w2)"
    and start: "enc_op s2 = fresh_handle (operations keyed_crypto)"
      "map_of (operations w2) (enc_op s2) = Some opn" "op_key opn = Some (replicate 32 7)"
      "op_iv opn = Some (take AES_IV_SIZE (iv keyed_session))"
    by blast
  from key_and_iv_lifecycle [where sess = keyed_session and env = plain_env and params = ?P
      and w = keyed_crypto and command = ?E and param_types = crypt_chunk_param_types
      and r = r2 and ps = ps2 and sess' = s2 and w' = w2] keyed(1) run2 enc
  have "initialized s2 \<and> key_handle s2 = key_handle keyed_session \<and> iv s2 = iv keyed_session
    \<and> transient w2 = transient keyed_crypto \<and> rng w2 = rng keyed_crypto"
    by simp
  with run2 start enc show "\<exists>r ps s' w' opn.
      TA_InvokeCommandEntryPoint_crypto plain_env keyed_session ?E crypt_chunk_param_types ?P keyed_crypto
        = Some (r, ps, s', w')
    \<and> enc_op s' = fresh_handle (operations keyed_crypto)
    \<and> map_of (operations w') (enc_op s') = Some opn
    \<and> op_key opn = Some (replicate 32 7)
    \<and> op_iv opn = Some (take AES_IV_SIZE (iv keyed_session))
    \<and> initialized s' \<and> key_handle s' = key_handle keyed_session \<and> iv s' = iv keyed_session
    \<and> transient w' = transient keyed_crypto \<and> rng w' = rng keyed_crypto"
    by simp

  from key_and_iv_lifecycle [where sess = keyed_session and env = plain_env and params = ?P
      and w = keyed_crypto and command = ?E and param_types = crypt_chunk_param_types] blind
  show "TA_InvokeCommandEntryPoint_crypto (erase_env plain_env) (erase_session keyed_session)
          ?E crypt_chunk_param_types ?P (erase_world keyed_crypto)
        = map_option (\<lambda>(r1, ps1, s1, w1). (r1, ps1, erase_session s1, erase_world w1))
            (TA_InvokeCommandEntryPoint_crypto plain_env keyed_session ?E crypt_chunk_param_types
               ?P keyed_crypto)"
    by blast
qed

text \<open>
  C8. WRITE_CHUNK, ENCRYPT_CHUNK and DECRYPT_CHUNK with an input chunk of more than
  \<open>CHUNK_SIZE\<close> (16384) bytes return \<open>TEE_ERROR_BAD_PARAMETERS\<close>, whatever the parameter
  types, and leave the session, the store, the output parameters and the cipher state as
  they were.
\<close>

theorem oversized_chunk_rejected:
  assumes "memref_size (p1 wparams) > CHUNK_SIZE" "memref_size (p0 cparams) > CHUNK_SIZE"
  shows "CHUNK_SIZE = 16384
    \<and> write_raw_chunk senv wtypes wparams wsess store
        = Some (TEE_ERROR_BAD_PARAMETERS, wsess, store)
    \<and> encrypt_chunk env ctypes cparams sess w
        = Some (TEE_ERROR_BAD_PARAMETERS, cparams, sess, w)
    \<and> decrypt_chunk env ctypes cparams sess w
        = Some (TEE_ERROR_BAD_PARAMETERS, cparams, sess, w)"
  using assms
  by (simp add: write_raw_chunk_def encrypt_chunk_def decrypt_chunk_def Let_def CHUNK_SIZE_def)

theorem oversized_chunk_rejected_witness:
  "CHUNK_SIZE = 16384
    \<and> write_raw_chunk reliable write_raw_chunk_param_types (chunk_params (replicate 16385 0) 1)
          \<lparr>object = TEE_HANDLE_NULL, in_progress = False\<rparr> empty_store
        = Some (TEE_ERROR_BAD_PARAMETERS, \<lparr>object = TEE_HANDLE_NULL, in_progress = False\<rparr>,
            empty_store)
    \<and> encrypt_chunk plain_env crypt_chunk_param_types (crypt_params (replicate 16385 0) 1)
          new_session empty_crypto
        = Some (TEE_ERROR_BAD_PARAMETERS, crypt_params (replicate 16385 0) 1, new_session,
            empty_crypto)
    \<and> decrypt_chunk plain_env crypt_chunk_param_types (crypt_params (replicate 16385 0) 1)
          new_session empty_crypto
        = Some (TEE_ERROR_BAD_PARAMETERS, crypt_params (replicate 16385 0) 1, new_session,
            empty_crypto)"
proof -
  have big: "memref_size (p1 (chunk_params (replicate 16385 0) 1)) > CHUNK_SIZE"
    "memref_size (p0 (crypt_params (replicate 16385 0) 1)) > CHUNK_SIZE"
    by (simp_all add: chunk_params_def crypt_params_def memref_param_def CHUNK_SIZE_def)
  show ?thesis by (rule oversized_chunk_rejected [OF big])
qed

text \<open>
  C10. An ENCRYPT_CHUNK with \<open>is_first\<close> not 0 whose payload is within \<open>CHUNK_SIZE\<close> but
  not a multiple of 16, with the key and operation primitives granted, returns
  \<open>TEE_ERROR_BAD_PARAMETERS\<close> after it has changed the state: the session is initialized,
  a newly allocated encryption operation holding the key and the IV is stored in it,
  and the encrypt-time and byte counters are 0. On a session not yet initialized the
  key and the IV are the two values just drawn; on an initialized session (holding a
  populated key) key and IV are the ones it had and nothing is drawn. The environment
  state after the call differs from the one before.
\<close>

theorem encrypt_chunk_unaligned_first_chunk:
  assumes "param_types = crypt_chunk_param_types"
    and "memref_size (p0 params) \<le> CHUNK_SIZE" "memref_size (p0 params) mod 16 \<noteq> 0"
    and "value_a (p2 params) \<noteq> 0"
    and "alloc_object_res env = TEE_SUCCESS" "populate_res env = TEE_SUCCESS"
    and "alloc_op_res env = TEE_SUCCESS" "set_key_res env = TEE_SUCCESS"
    and "if initialized sess
         then key_handle sess \<noteq> TEE_HANDLE_NULL
            \<and> map_of (transient w) (key_handle sess) = Some (Some secret)
         else True"
  shows "\<exists>sess' w'.
      encrypt_chunk env param_types params sess w
        = Some (TEE_ERROR_BAD_PARAMETERS, params, sess', w')
    \<and> initialized sess' \<and> total_enc_time_us sess' = 0 \<and> total_bytes sess' = 0
    \<and> enc_op sess' = fresh_handle (operations w)
    \<and> (\<exists>k. map_of (transient w') (key_handle sess') = Some (Some k)
          \<and> operations w' =
              (enc_op sess', \<lparr>op_mode = TEE_MODE_ENCRYPT, op_key = Some k,
                 op_iv = Some (take AES_IV_SIZE (iv sess')), op_fed = []\<rparr>) # operations w)
    \<and> (if initialized sess
        then key_handle sess' = key_handle sess \<and> iv sess' = iv sess
           \<and> transient w' = transient w \<and> rng w' = rng w
        else map_of (transient w') (key_handle sess')
               = Some (Some (random_source env (rng w) AES_KEY_SIZE))
           \<and> iv sess' = random_source env (Suc (rng w)) AES_IV_SIZE
           \<and> rng w' = rng w + 2)
    \<and> w' \<noteq> w"
proof (cases "initialized sess")
  case False
  have first: "encrypt_chunk_first env sess w = Some (TEE_SUCCESS,
       sess\<lparr>enc_op := fresh_handle (operations w), key_handle := fresh_handle (transient w),
            iv := random_source env (Suc (rng w)) AES_IV_SIZE, initialized := True,
            total_enc_time_us := 0, total_bytes := 0\<rparr>,
       w\<lparr>transient := (fresh_handle (transient w), Some (random_source env (rng w) AES_KEY_SIZE)) # transient w,
         operations := (fresh_handle (operations w),
            \<lparr>op_mode = TEE_MODE_ENCRYPT, op_key = Some (random_source env (rng w) AES_KEY_SIZE),
             op_iv = Some (take AES_IV_SIZE (random_source env (Suc (rng w)) AES_IV_SIZE)), op_fed = []\<rparr>) # operations w,
         rng := Suc (Suc (rng w))\<rparr>)" (is "_ = Some (_, ?s, ?w)")
    using assms False by (simp add: encrypt_chunk_first_fresh)
  have run: "encrypt_chunk env param_types params sess w = Some (TEE_ERROR_BAD_PARAMETERS, params, ?s, ?w)"
    using assms(1-4) first by (simp add: encrypt_chunk_def Let_def)
  have neq: "?w \<noteq> w"
    by (rule world_neq_by_operations [where x = "(fresh_handle (operations w),
            \<lparr>op_mode = TEE_MODE_ENCRYPT, op_key = Some (random_source env (rng w) AES_KEY_SIZE),
             op_iv = Some (take AES_IV_SIZE (random_source env (Suc (rng w)) AES_IV_SIZE)), op_fed = []\<rparr>)"]) simp
  show ?thesis
    apply (rule exI [of _ ?s], rule exI [of _ ?w])
    using run neq False by simp
next
  case True
  with assms(9) have key: "key_handle sess \<noteq> TEE_HANDLE_NULL"
    "map_of (transient w) (key_handle sess) = Some (Some secret)" by simp_all
  have first: "encrypt_chunk_first env sess w =
     Some (TEE_SUCCESS,
       sess\<lparr>enc_op := fresh_handle (operations w), total_enc_time_us := 0, total_bytes := 0\<rparr>,
       w\<lparr>operations := (fresh_handle (operations w),
            \<lparr>op_mode = TEE_MODE_ENCRYPT, op_key = Some secret,
             op_iv = Some (take AES_IV_SIZE (iv sess)), op_fed = []\<rparr>) # operations w\<rparr>)" (is "_ = Some (_, ?s, ?w)")
    using assms(7,8) True key by (simp add: encrypt_chunk_first_again)
  have run: "encrypt_chunk env param_types params sess w = Some (TEE_ERROR_BAD_PARAMETERS, params, ?s, ?w)"
    using assms(1-4) first by (simp add: encrypt_chunk_def Let_def)
  have neq: "?w \<noteq> w"
    by (rule world_neq_by_operations [where x = "(fresh_handle (operations w),
            \<lparr>op_mode = TEE_MODE_ENCRYPT, op_key = Some secret,
             op_iv = Some (take AES_IV_SIZE (iv sess)), op_fed = []\<rparr>)"]) simp
  show ?thesis
    apply (rule exI [of _ ?s], rule exI [of _ ?w])
    using run neq True key by simp
qed

theorem encrypt_chunk_unaligned_first_chunk_witness:
  "\<exists>sess' w'.
      encrypt_chunk plain_env crypt_chunk_param_types (crypt_params [1, 2, 3] 1) new_session empty_crypto
        = Some (TEE_ERROR_BAD_PARAMETERS, crypt_params [1, 2, 3] 1, sess', w')
    \<and> initialized sess' \<and> total_enc_time_us sess' = 0 \<and> total_bytes sess' = 0
    \<and> enc_op sess' = fresh_handle (operations empty_crypto)
    \<and> (\<exists>k. map_of (transient w') (key_handle sess') = Some (Some k)
          \<and> operations w' =
              (enc_op sess', \<lparr>op_mode = TEE_MODE_ENCRYPT, op_key = Some k,
                 op_iv = Some (take AES_IV_SIZE (iv sess')), op_fed = []\<rparr>) # operations empty_crypto)
    \<and> (if initialized new_session
        then key_handle sess' = key_handle new_session \<and> iv sess' = iv new_session
           \<and> transient w' = transient empty_crypto \<and> rng w' = rng empty_crypto
        else map_of (transient w') (key_handle sess')
               = Some (Some (random_source plain_env (rng empty_crypto) AES_KEY_SIZE))
           \<and> iv sess' = random_source plain_env (Suc (rng empty_crypto)) AES_IV_SIZE
           \<and> rng w' = rng empty_crypto + 2)
    \<and> w' \<noteq> empty_crypto"
proof -
  have params: "memref_size (p0 (crypt_params [1, 2, 3] 1)) \<le> CHUNK_SIZE"
    "memref_size (p0 (crypt_params [1, 2, 3] 1)) mod 16 \<noteq> 0"
    "value_a (p2 (crypt_params [1, 2, 3] 1)) \<noteq> 0"
    by (simp_all add: crypt_params_def memref_param_def value_param_def CHUNK_SIZE_def)
  have env: "alloc_object_res plain_env = TEE_SUCCESS" "populate_res plain_env = TEE_SUCCESS"
    "alloc_op_res plain_env = TEE_SUCCESS" "set_key_res plain_env = TEE_SUCCESS"
    by (simp_all add: plain_env_def)
  have key: "if initialized new_session
         then key_handle new_session \<noteq> TEE_HANDLE_NULL
            \<and> map_of (transient empty_crypto) (key_handle new_session) = Some (Some [])
         else True"
    by (simp add: new_session_def)
  show ?thesis
    by (rule encrypt_chunk_unaligned_first_chunk [OF refl params env key])
qed

end
